theory Spec2Isabelle
  imports Main "HOL-Library.Word"
begin

section \<open>lmhttpd.hpp: the data model\<close>

text \<open>
  A shallow embedding of \<^verbatim>\<open>lmhttpd.hpp\<close> (namespace \<^verbatim>\<open>lmh\<close>), the revision with
  \<^verbatim>\<open>ConnectionState\<close>, \<^verbatim>\<open>Controller::handleComplete\<close>, the allow-list and the retrying
  \<^verbatim>\<open>WebServer::start_daemon\<close>.

  The library underneath (libmicrohttpd, the socket calls, \<^verbatim>\<open>nanosleep\<close>) is the
  environment. Each call into it is recorded as an \<open>event\<close> in a trace, in program order, and
  each answer it gives is an input of the model: the value \<^verbatim>\<open>MHD_queue_response\<close> returns
  is a field of the connection as the callback sees it, the results of the socket calls of one
  loop iteration are a \<open>syscalls\<close> record.

  The constants below are those of \<^verbatim>\<open>microhttpd.h\<close> and of the Linux socket headers.
\<close>

definition MHD_NO :: int where "MHD_NO = 0"
definition MHD_YES :: int where "MHD_YES = 1"
definition MHD_HTTP_OK :: nat where "MHD_HTTP_OK = 200"
definition MHD_HTTP_FORBIDDEN :: nat where "MHD_HTTP_FORBIDDEN = 403"
definition MHD_HTTP_NOT_FOUND :: nat where "MHD_HTTP_NOT_FOUND = 404"
definition AF_INET :: "16 word" where "AF_INET = 2"
definition AF_INET6 :: "16 word" where "AF_INET6 = 10"

datatype MHD_RequestTerminationCode =
    MHD_REQUEST_TERMINATED_COMPLETED_OK
  | MHD_REQUEST_TERMINATED_WITH_ERROR
  | MHD_REQUEST_TERMINATED_TIMEOUT_REACHED
  | MHD_REQUEST_TERMINATED_DAEMON_SHUTDOWN
  | MHD_REQUEST_TERMINATED_READ_ERROR
  | MHD_REQUEST_TERMINATED_CLIENT_ABORT

record timespec =
  tv_sec :: int
  tv_nsec :: int

text \<open>
  \<^verbatim>\<open>struct ConnectionState\<close>. The reference \<^verbatim>\<open>conroller\<close> (spelt as in the source) is the
  address of the owning controller object.
\<close>

record ConnectionState =
  conroller :: nat
  request_data :: string
  response_sent :: bool
  response_headers :: "(string \<times> string) list"
  response_data :: string
  request_waiting_loop_counter :: "32 word"

definition ConnectionState_init :: "nat \<Rightarrow> ConnectionState" where
  "ConnectionState_init controller =
     \<lparr>conroller = controller, request_data = [], response_sent = False,
      response_headers = [], response_data = [], request_waiting_loop_counter = 0\<rparr>"

text \<open>\<^verbatim>\<open>struct ResponseParams\<close>; \<^verbatim>\<open>response_code\<close> is an \<^verbatim>\<open>unsigned short\<close>.\<close>

record ResponseParams =
  response_code :: "16 word"
  response_message :: string
  headers :: "(string \<times> string) list"

definition ResponseParams_init :: ResponseParams where
  "ResponseParams_init =
     \<lparr>response_code = word_of_int MHD_YES, response_message = [], headers = []\<rparr>"

text \<open>
  The peer descriptor of a connection, and the connection as one activation of a callback
  sees it: \<open>connection_info = None\<close> is \<^verbatim>\<open>MHD_get_connection_info\<close> returning null,
  \<open>Some None\<close> a null \<^verbatim>\<open>client_addr\<close>; \<open>queue_response_ret\<close> is what
  \<^verbatim>\<open>MHD_queue_response\<close> answers during this activation (every callback path calls it at
  most once).
\<close>

record sockaddr =
  sa_family :: "16 word"
  sa_data :: "8 word list"

record MHD_Connection =
  connection_info :: "sockaddr option option"
  queue_response_ret :: int

text \<open>
  The arguments of the access handler callback; \<open>meth\<close> is the argument \<^verbatim>\<open>method\<close>
  (as a string, the \<^verbatim>\<open>meth\<close> of \<^verbatim>\<open>handleRequest\<close>). \<open>upload_data = None\<close> is the null pointer.
  \<^verbatim>\<open>version\<close> and \<^verbatim>\<open>upload_data_size\<close> are only passed on to \<^verbatim>\<open>createResponse\<close> and are
  part of what it may depend on.
\<close>

record invocation =
  connection :: MHD_Connection
  url :: string
  meth :: string
  version :: string
  upload_data :: "string option"
  upload_data_size :: nat

text \<open>
  The address \<^verbatim>\<open>start_daemon\<close> binds to: the zeroed \<^verbatim>\<open>sin_addr\<close>, the loopback address, or
  what \<^verbatim>\<open>inet_pton\<close> makes of the configured literal.
\<close>

datatype sin_addr = INADDR_ANY | INADDR_LOOPBACK | Inet_pton string

datatype event =
    New_ConnectionState nat
  | Delete_ConnectionState nat
  | Call_validPath nat string string
  | Call_handleRequest nat
  | Call_createResponse
  | Nanosleep timespec
  | Queue_response nat string "(string \<times> string) list"
  | Sys_socket int
  | Sys_setsockopt int string
  | Sys_bind int sin_addr "16 word"
  | Sys_listen int
  | Sys_close int
  | MHD_start_daemon bool int
  | MHD_stop_daemon nat

text \<open>
  The store. \<open>heap\<close> holds the \<^verbatim>\<open>ConnectionState\<close> objects: an address is an index,
  \<^verbatim>\<open>new\<close> appends a cell (so a new address was never used before), \<^verbatim>\<open>delete\<close> empties
  the cell. \<open>user\<close> is whatever the application's \<^verbatim>\<open>createResponse\<close> reads and writes (a
  clock, a counter): it makes a build step that answers differently on each call expressible.
\<close>

record 'u world =
  heap :: "ConnectionState option list"
  user :: 'u
  trace :: "event list"

text \<open>Using a pointer that is not a live \<^verbatim>\<open>ConnectionState\<close> is undefined behaviour.\<close>

datatype fault = Invalid_ConnectionState nat

definition emit :: "event \<Rightarrow> 'u world \<Rightarrow> 'u world" where
  "emit e w = w\<lparr>trace := trace w @ [e]\<rparr>"

definition deref :: "'u world \<Rightarrow> nat \<Rightarrow> ConnectionState option" where
  "deref w a = (if a < length (heap w) then heap w ! a else None)"

definition store :: "nat \<Rightarrow> ConnectionState \<Rightarrow> 'u world \<Rightarrow> 'u world" where
  "store a s w = w\<lparr>heap := (heap w)[a := Some s]\<rparr>"

section \<open>Controller\<close>

text \<open>
  \<^verbatim>\<open>class Controller\<close> is an interface: a controller object is the record of its virtual
  methods. The per-connection slot \<^verbatim>\<open>void** ptr\<close> is a \<open>nat option\<close> passed in and
  returned. \<^verbatim>\<open>validPath\<close> is taken to be a pure predicate; its calls are recorded.
\<close>

record 'u Controller =
  validPath :: "string \<Rightarrow> string \<Rightarrow> bool"
  handleRequest ::
    "invocation \<Rightarrow> nat option \<Rightarrow> 'u world \<Rightarrow> fault + (int \<times> nat option \<times> 'u world)"
  handleComplete ::
    "MHD_Connection \<Rightarrow> MHD_RequestTerminationCode \<Rightarrow> nat option \<Rightarrow> 'u world
       \<Rightarrow> fault + (int \<times> 'u world)"

text \<open>\<^verbatim>\<open>Controller::handleComplete\<close>, the default: \<^verbatim>\<open>if(cs) delete cs; return MHD_YES;\<close>\<close>

definition Controller_handleComplete ::
  "MHD_Connection \<Rightarrow> MHD_RequestTerminationCode \<Rightarrow> nat option \<Rightarrow> 'u world
     \<Rightarrow> fault + (int \<times> 'u world)" where
  "Controller_handleComplete con toe cs w =
     (case cs of
        None \<Rightarrow> Inr (MHD_YES, w)
      | Some a \<Rightarrow>
          (case deref w a of
             None \<Rightarrow> Inl (Invalid_ConnectionState a)
           | Some s \<Rightarrow>
               Inr (MHD_YES, emit (Delete_ConnectionState a) (w\<lparr>heap := (heap w)[a := None]\<rparr>))))"

text \<open>\<^verbatim>\<open>Controller::create_state\<close>, the default: \<^verbatim>\<open>new ConnectionState(*this)\<close>.\<close>

definition create_state :: "nat \<Rightarrow> 'u world \<Rightarrow> nat \<times> 'u world" where
  "create_state this w =
     (let a = length (heap w) in
      (a, emit (New_ConnectionState a) (w\<lparr>heap := heap w @ [Some (ConnectionState_init this)]\<rparr>)))"

section \<open>DynamicController\<close>

text \<open>
  The two mutable statics \<^verbatim>\<open>waiting_usec_sleep\<close> and \<^verbatim>\<open>waiting_loops\<close>, with their
  initial values.
\<close>

record DynamicController_statics =
  waiting_usec_sleep :: timespec
  waiting_loops :: "32 word"

definition DynamicController_defaults :: DynamicController_statics where
  "DynamicController_defaults =
     \<lparr>waiting_usec_sleep = \<lparr>tv_sec = 0, tv_nsec = 10000000\<rparr>, waiting_loops = 300\<rparr>"

text \<open>
  Lines 490 to 503 of \<^verbatim>\<open>handleRequest\<close>: a POST with no upload data and nothing cached.
  The counter is pre-incremented (a \<^verbatim>\<open>uint32_t\<close>, so it wraps) and compared unsigned.
\<close>

definition wait_for_upload ::
  "DynamicController_statics \<Rightarrow> nat \<Rightarrow> ConnectionState \<Rightarrow> 'u world
     \<Rightarrow> fault + (int \<times> nat option \<times> 'u world)" where
  "wait_for_upload cfg a state w =
     (let state' = state\<lparr>request_waiting_loop_counter := request_waiting_loop_counter state + 1\<rparr>;
          w' = store a state' w
      in if request_waiting_loop_counter state' > waiting_loops cfg
         then Inr (MHD_NO, Some a, w')
         else Inr (MHD_YES, Some a, emit (Nanosleep (waiting_usec_sleep cfg)) w'))"

text \<open>
  Lines 506 to 519: when no body is cached, call the application's \<^verbatim>\<open>createResponse\<close>.
  It returns the \<^verbatim>\<open>ResponseParams\<close> and what it wrote to the string stream, and may change
  its own state \<open>user\<close>; it is taken not to write through \<^verbatim>\<open>ptr\<close>. The result \<open>None\<close> is
  the \<^verbatim>\<open>return MHD_NO\<close> of line 514.
\<close>

definition build_response ::
  "(invocation \<Rightarrow> 'u \<Rightarrow> (ResponseParams \<times> string) \<times> 'u) \<Rightarrow> invocation \<Rightarrow> ConnectionState
     \<Rightarrow> 'u world \<Rightarrow> ConnectionState option \<times> 'u world" where
  "build_response createResponse req state w =
     (if response_data state = [] then
        (let ((response_params, response_ss), u') = createResponse req (user w);
             w' = emit Call_createResponse (w\<lparr>user := u'\<rparr>)
         in if uint (response_code response_params) = MHD_NO then (None, w')
            else (Some (state\<lparr>response_data := response_ss,
                               response_headers := headers response_params\<rparr>), w'))
      else (Some state, w))"

text \<open>
  Lines 521 to 534: build the transport's response from the cached body and headers, queue it
  with status \<^verbatim>\<open>MHD_HTTP_OK\<close>, and set \<^verbatim>\<open>response_sent\<close> when the transport accepted it.
\<close>

definition queue_cached_response ::
  "invocation \<Rightarrow> nat \<Rightarrow> ConnectionState \<Rightarrow> 'u world \<Rightarrow> 'u world" where
  "queue_cached_response req a state w =
     (let w' = emit (Queue_response MHD_HTTP_OK (response_data state) (response_headers state)) w;
          ret = queue_response_ret (connection req)
      in store a (if ret = MHD_YES then state\<lparr>response_sent := True\<rparr> else state) w')"

text \<open>\<^verbatim>\<open>DynamicController::handleRequest\<close>; \<open>this\<close> is the address of the controller.\<close>

definition DynamicController_handleRequest ::
  "DynamicController_statics \<Rightarrow> nat \<Rightarrow> (invocation \<Rightarrow> 'u \<Rightarrow> (ResponseParams \<times> string) \<times> 'u)
     \<Rightarrow> invocation \<Rightarrow> nat option \<Rightarrow> 'u world \<Rightarrow> fault + (int \<times> nat option \<times> 'u world)" where
  "DynamicController_handleRequest cfg this createResponse req ptr w0 =
     (let (a, w) = (case ptr of None \<Rightarrow> create_state this w0 | Some p \<Rightarrow> (p, w0)) in
      case deref w a of
        None \<Rightarrow> Inl (Invalid_ConnectionState a)
      | Some state \<Rightarrow>
          if \<not> response_sent state then
            if meth req = ''POST'' \<and> upload_data req = None \<and> response_data state = []
            then wait_for_upload cfg a state w
            else
              (case build_response createResponse req state w of
                 (None, w') \<Rightarrow> Inr (MHD_NO, Some a, w')
               | (Some state', w') \<Rightarrow> Inr (MHD_YES, Some a, queue_cached_response req a state' w'))
          else Inr (MHD_YES, Some a, w))"

text \<open>
  A \<^verbatim>\<open>DynamicController\<close> object: the application supplies \<^verbatim>\<open>validPath\<close> and
  \<^verbatim>\<open>createResponse\<close>; \<^verbatim>\<open>handleComplete\<close> is inherited.
\<close>

definition DynamicController ::
  "DynamicController_statics \<Rightarrow> nat \<Rightarrow> (string \<Rightarrow> string \<Rightarrow> bool)
     \<Rightarrow> (invocation \<Rightarrow> 'u \<Rightarrow> (ResponseParams \<times> string) \<times> 'u) \<Rightarrow> 'u Controller" where
  "DynamicController cfg this vp createResponse =
     \<lparr>validPath = vp,
      handleRequest = DynamicController_handleRequest cfg this createResponse,
      handleComplete = Controller_handleComplete\<rparr>"

section \<open>WebServer\<close>

record options_t =
  bind_loopback :: bool
  bind_address :: string
  bind_interface :: string
  certificate :: "(string \<times> string) option"
  handler_should_terminate :: "(nat \<Rightarrow> bool) option"
  allowed_ips :: "string list"

definition options_init :: options_t where
  "options_init =
     \<lparr>bind_loopback = False, bind_address = [], bind_interface = [], certificate = None,
      handler_should_terminate = None, allowed_ips = [''*'']\<rparr>"

text \<open>\<^verbatim>\<open>options_t::is_allowed_ip\<close>: \<^verbatim>\<open>std::any_of\<close> over the entries.\<close>

definition is_allowed_ip :: "options_t \<Rightarrow> string \<Rightarrow> bool" where
  "is_allowed_ip opts ip =
     list_ex (\<lambda>it. if it = ''all'' \<or> it = ''*'' then True else it = ip) (allowed_ips opts)"

text \<open>
  \<^verbatim>\<open>class WebServer\<close>. \<open>controllers\<close> holds the shared pointers in registration order
  (\<open>None\<close> is a null pointer); the controller objects themselves are read through a table
  \<open>obj\<close> from addresses to objects, which the functions below take as a parameter.
\<close>

text \<open>The members \<^verbatim>\<open>port_\<close>, \<^verbatim>\<open>daemon_\<close> and \<^verbatim>\<open>options_\<close> lose their underscore.\<close>

record WebServer =
  port :: "16 word"
  daemon :: "nat option"
  options :: options_t
  controllers :: "nat option list"

definition addController :: "nat option \<Rightarrow> WebServer \<Rightarrow> WebServer" where
  "addController controller srv = srv\<lparr>controllers := controllers srv @ [controller]\<rparr>"

text \<open>
  \<^verbatim>\<open>WebServer::connection_ip\<close>. \<open>inet_ntop\<close> stands for the C library's function: it gives
  the contents of the zero-initialised buffer \<^verbatim>\<open>client_ip\<close> after the call, and the address
  is the buffer up to its first NUL.
\<close>

definition connection_ip ::
  "(16 word \<Rightarrow> sockaddr \<Rightarrow> string) \<Rightarrow> MHD_Connection \<Rightarrow> string" where
  "connection_ip inet_ntop con =
     (case connection_info con of
        None \<Rightarrow> []
      | Some None \<Rightarrow> []
      | Some (Some client_addr) \<Rightarrow>
          if sa_family client_addr = AF_INET
          then takeWhile (\<lambda>c. c \<noteq> CHR 0x00) (inet_ntop AF_INET client_addr)
          else if sa_family client_addr = AF_INET6
          then takeWhile (\<lambda>c. c \<noteq> CHR 0x00) (inet_ntop AF_INET6 client_addr)
          else [])"

definition is_ip_allowed ::
  "(16 word \<Rightarrow> sockaddr \<Rightarrow> string) \<Rightarrow> WebServer \<Rightarrow> MHD_Connection \<Rightarrow> bool" where
  "is_ip_allowed inet_ntop srv con = is_allowed_ip (options srv) (connection_ip inet_ntop con)"

text \<open>
  The loop of \<^verbatim>\<open>WebServer::request_handler\<close> over the controllers, and its fall-through:
  a 404 response with an empty body.
\<close>

fun dispatch ::
  "(nat \<Rightarrow> 'u Controller) \<Rightarrow> nat option list \<Rightarrow> invocation \<Rightarrow> nat option \<Rightarrow> 'u world
     \<Rightarrow> fault + (int \<times> nat option \<times> 'u world)" where
  "dispatch obj [] req ptr w =
     Inr (queue_response_ret (connection req), ptr,
          emit (Queue_response MHD_HTTP_NOT_FOUND [] []) w)"
| "dispatch obj (None # cs) req ptr w = dispatch obj cs req ptr w"
| "dispatch obj (Some c # cs) req ptr w =
     (let w' = emit (Call_validPath c (url req) (meth req)) w in
      if validPath (obj c) (url req) (meth req)
      then handleRequest (obj c) req ptr (emit (Call_handleRequest c) w')
      else dispatch obj cs req ptr w')"

definition request_handler ::
  "(16 word \<Rightarrow> sockaddr \<Rightarrow> string) \<Rightarrow> (nat \<Rightarrow> 'u Controller) \<Rightarrow> WebServer \<Rightarrow> invocation
     \<Rightarrow> nat option \<Rightarrow> 'u world \<Rightarrow> fault + (int \<times> nat option \<times> 'u world)" where
  "request_handler inet_ntop obj server req ptr w =
     (if \<not> is_ip_allowed inet_ntop server (connection req)
      then Inr (queue_response_ret (connection req), ptr,
                emit (Queue_response MHD_HTTP_FORBIDDEN [] []) w)
      else dispatch obj (controllers server) req ptr w)"

text \<open>
  \<^verbatim>\<open>WebServer::request_complete_handler\<close>: forwards to the \<^verbatim>\<open>handleComplete\<close> of the
  controller the state refers to; it returns nothing and leaves the slot as it is.
\<close>

definition request_complete_handler ::
  "(nat \<Rightarrow> 'u Controller) \<Rightarrow> MHD_Connection \<Rightarrow> nat option \<Rightarrow> MHD_RequestTerminationCode
     \<Rightarrow> 'u world \<Rightarrow> fault + 'u world" where
  "request_complete_handler obj con con_cls toe w =
     (case con_cls of
        None \<Rightarrow> Inr w
      | Some a \<Rightarrow>
          (case deref w a of
             None \<Rightarrow> Inl (Invalid_ConnectionState a)
           | Some cs \<Rightarrow>
               (case handleComplete (obj (conroller cs)) con toe (Some a) w of
                  Inl f \<Rightarrow> Inl f
                | Inr (r, w') \<Rightarrow> Inr w')))"

section \<open>One connection, as the transport drives it\<close>

text \<open>
  libmicrohttpd calls the access handler of one connection several times, never two at once,
  and closes the connection when the handler returns \<^verbatim>\<open>MHD_NO\<close>. \<open>serve\<close> runs a
  handler over the activations of one connection in order, threading the slot and the world,
  and stops after the first \<^verbatim>\<open>MHD_NO\<close>; it gives the handler's return values.
\<close>

fun serve ::
  "(invocation \<Rightarrow> nat option \<Rightarrow> 'u world \<Rightarrow> fault + (int \<times> nat option \<times> 'u world))
     \<Rightarrow> invocation list \<Rightarrow> nat option \<Rightarrow> 'u world
     \<Rightarrow> fault + (int list \<times> nat option \<times> 'u world)" where
  "serve h [] ptr w = Inr ([], ptr, w)"
| "serve h (req # reqs) ptr w =
     (case h req ptr w of
        Inl f \<Rightarrow> Inl f
      | Inr (ret, ptr', w') \<Rightarrow>
          if ret = MHD_NO then Inr ([ret], ptr', w')
          else (case serve h reqs ptr' w' of
                  Inl f \<Rightarrow> Inl f
                | Inr (rets, ptr'', w'') \<Rightarrow> Inr (ret # rets, ptr'', w'')))"

text \<open>The number of calls of \<^verbatim>\<open>createResponse\<close> a trace records.\<close>

definition createResponse_calls :: "event list \<Rightarrow> nat" where
  "createResponse_calls tr = length (filter (\<lambda>e. e = Call_createResponse) tr)"

text \<open>The responses a trace queued, in order: status, body, headers.\<close>

fun queued :: "event list \<Rightarrow> (nat \<times> string \<times> (string \<times> string) list) list" where
  "queued [] = []"
| "queued (Queue_response code body hdrs # tr) = (code, body, hdrs) # queued tr"
| "queued (e # tr) = queued tr"

section \<open>WebServer::start_daemon\<close>

text \<open>
  What the operating system and libmicrohttpd answer during one iteration of the loop:
  the results of \<^verbatim>\<open>socket\<close>, \<^verbatim>\<open>setsockopt\<close>, \<^verbatim>\<open>bind\<close>, \<^verbatim>\<open>listen\<close> and
  \<^verbatim>\<open>MHD_start_daemon\<close> (\<open>None\<close> is the null pointer).
\<close>

record syscalls =
  socket_ret :: int
  setsockopt_ret :: int
  bind_ret :: int
  listen_ret :: int
  MHD_start_daemon_ret :: "nat option"

definition sleepy :: "int \<Rightarrow> timespec" where
  "sleepy l = \<lparr>tv_sec = l, tv_nsec = 0\<rparr>"

definition bind_addr :: "options_t \<Rightarrow> sin_addr" where
  "bind_addr opts =
     (if bind_loopback opts then INADDR_LOOPBACK
      else if bind_address opts \<noteq> [] then Inet_pton (bind_address opts)
      else INADDR_ANY)"

text \<open>
  The body of the \<^verbatim>\<open>while\<close> loop. The first component is true when the body leaves through
  one of its four \<^verbatim>\<open>continue\<close> statements, which jump to the loop test and so pass over the
  \<^verbatim>\<open>--attempts\<close> at the end of the body; the second is the new \<^verbatim>\<open>daemon_\<close>; the third is
  the calls made, in order.
\<close>

definition attempt :: "syscalls \<Rightarrow> WebServer \<Rightarrow> bool \<times> nat option \<times> event list" where
  "attempt sys srv =
     (let listen_socket = socket_ret sys;
          iface = bind_interface (options srv);
          opened = Sys_socket listen_socket
                   # (if iface \<noteq> [] then [Sys_setsockopt listen_socket iface] else []);
          bound = opened @ [Sys_bind listen_socket (bind_addr (options srv)) (port srv)]
      in
      if listen_socket = -1
      then (True, None, [Sys_socket listen_socket, Nanosleep (sleepy 5)])
      else if iface \<noteq> [] \<and> setsockopt_ret sys < 0
      then (True, None, opened @ [Sys_close listen_socket, Nanosleep (sleepy 5)])
      else if bind_ret sys = -1
      then (True, None, bound @ [Sys_close listen_socket, Nanosleep (sleepy 5)])
      else if listen_ret sys = -1
      then (True, None,
            bound @ [Sys_listen listen_socket, Sys_close listen_socket, Nanosleep (sleepy 5)])
      else
        (let d = MHD_start_daemon_ret sys;
             started = bound @ [Sys_listen listen_socket,
                                MHD_start_daemon (certificate (options srv) \<noteq> None) listen_socket]
         in (False, d, if d = None then started @ [Nanosleep (sleepy 5)] else started)))"

text \<open>
  The loop \<^verbatim>\<open>while(! daemon_ && attempts >= 0)\<close>, with fuel: \<open>None\<close> is the loop still
  running when the fuel is used up. \<open>sys i\<close> are the environment's answers in iteration \<open>i\<close>.
  The result is the server, the final \<^verbatim>\<open>attempts\<close>, the number of iterations made and
  the trace.
\<close>

fun start_daemon_loop ::
  "nat \<Rightarrow> (nat \<Rightarrow> syscalls) \<Rightarrow> WebServer \<Rightarrow> nat \<Rightarrow> int \<Rightarrow> event list
     \<Rightarrow> (WebServer \<times> int \<times> nat \<times> event list) option" where
  "start_daemon_loop 0 sys srv i attempts tr = None"
| "start_daemon_loop (Suc fuel) sys srv i attempts tr =
     (if daemon srv = None \<and> attempts \<ge> 0 then
        (case attempt (sys i) srv of
           (True, d, evs) \<Rightarrow> start_daemon_loop fuel sys srv (Suc i) attempts (tr @ evs)
         | (False, d, evs) \<Rightarrow>
             start_daemon_loop fuel sys (srv\<lparr>daemon := d\<rparr>) (Suc i) (attempts - 1) (tr @ evs))
      else Some (srv, attempts, i, tr))"

text \<open>\<^verbatim>\<open>stop_daemon\<close> stops the engine and leaves \<^verbatim>\<open>daemon_\<close> as it is.\<close>

definition stop_daemon :: "WebServer \<Rightarrow> event list \<Rightarrow> event list" where
  "stop_daemon srv tr = (case daemon srv of None \<Rightarrow> tr | Some d \<Rightarrow> tr @ [MHD_stop_daemon d])"

definition start_daemon ::
  "nat \<Rightarrow> (nat \<Rightarrow> syscalls) \<Rightarrow> WebServer \<Rightarrow> event list
     \<Rightarrow> (WebServer \<times> int \<times> nat \<times> event list) option" where
  "start_daemon fuel sys srv tr = start_daemon_loop fuel sys srv 0 12 (stop_daemon srv tr)"

definition WebServer_init :: "16 word \<Rightarrow> WebServer" where
  "WebServer_init p = \<lparr>port = p, daemon = None, options = options_init, controllers = []\<rparr>"

section \<open>Predicates of the statements, and sample values\<close>

text \<open>Whether a registered pointer is a controller that accepts the request.\<close>

definition matches :: "(nat \<Rightarrow> 'u Controller) \<Rightarrow> invocation \<Rightarrow> nat option \<Rightarrow> bool" where
  "matches obj req p =
     (case p of None \<Rightarrow> False | Some c \<Rightarrow> validPath (obj c) (url req) (meth req))"

text \<open>The calls of \<^verbatim>\<open>validPath\<close> the dispatcher makes while it passes over a list.\<close>

definition validPath_calls :: "nat option list \<Rightarrow> invocation \<Rightarrow> event list" where
  "validPath_calls cs req =
     concat (map (\<lambda>p. case p of None \<Rightarrow> [] | Some c \<Rightarrow> [Call_validPath c (url req) (meth req)]) cs)"

text \<open>A peer descriptor \<^verbatim>\<open>connection_ip\<close> has no text for.\<close>

definition unsupported_peer :: "MHD_Connection \<Rightarrow> bool" where
  "unsupported_peer con =
     (case connection_info con of
        None \<Rightarrow> True
      | Some None \<Rightarrow> True
      | Some (Some client_addr) \<Rightarrow>
          sa_family client_addr \<noteq> AF_INET \<and> sa_family client_addr \<noteq> AF_INET6)"

text \<open>
  Sample values. The controller of \<^verbatim>\<open>examples/sample1.cpp\<close> accepts GET on the root path
  and prints the time of day; here the clock is the \<open>user\<close> state, a number that the build
  step writes out in unary and advances, so that no two calls give the same body.
\<close>

definition world_init :: "nat world" where
  "world_init = \<lparr>heap = [], user = 0, trace = []\<rparr>"

definition MyController_validPath :: "string \<Rightarrow> string \<Rightarrow> bool" where
  "MyController_validPath path mth = (path = ''/'' \<and> mth = ''GET'')"

definition MyController_createResponse ::
  "invocation \<Rightarrow> nat \<Rightarrow> (ResponseParams \<times> string) \<times> nat" where
  "MyController_createResponse req clock =
     ((ResponseParams_init\<lparr>headers := [(''Content-Type'', ''text/html'')]\<rparr>,
       ''Hello World at '' @ replicate clock (CHR ''I'')), Suc clock)"

text \<open>A build step that writes nothing to the stream, and one that asks for an abort.\<close>

definition silent_createResponse ::
  "invocation \<Rightarrow> nat \<Rightarrow> (ResponseParams \<times> string) \<times> nat" where
  "silent_createResponse req clock = ((ResponseParams_init, []), Suc clock)"

definition aborting_createResponse ::
  "invocation \<Rightarrow> nat \<Rightarrow> (ResponseParams \<times> string) \<times> nat" where
  "aborting_createResponse req clock =
     ((ResponseParams_init\<lparr>response_code := word_of_int MHD_NO\<rparr>, ''never sent''), Suc clock)"

definition no_inet_ntop :: "16 word \<Rightarrow> sockaddr \<Rightarrow> string" where
  "no_inet_ntop af sa = replicate 46 (CHR 0x00)"

definition dotted_inet_ntop :: "16 word \<Rightarrow> sockaddr \<Rightarrow> string" where
  "dotted_inet_ntop af sa =
     (if sa_data sa = [10, 0, 0, 2] then ''10.0.0.2'' @ replicate 38 (CHR 0x00)
      else ''10.0.0.1'' @ replicate 38 (CHR 0x00))"

definition peer :: "16 word \<Rightarrow> 8 word list \<Rightarrow> int \<Rightarrow> MHD_Connection" where
  "peer af bytes ret =
     \<lparr>connection_info = Some (Some \<lparr>sa_family = af, sa_data = bytes\<rparr>), queue_response_ret = ret\<rparr>"

definition request :: "MHD_Connection \<Rightarrow> string \<Rightarrow> string \<Rightarrow> string option \<Rightarrow> invocation" where
  "request con path mth data =
     \<lparr>connection = con, url = path, meth = mth, version = ''HTTP/1.1'',
      upload_data = data, upload_data_size = (case data of None \<Rightarrow> 0 | Some d \<Rightarrow> length d)\<rparr>"

definition teapot_createResponse ::
  "invocation \<Rightarrow> nat \<Rightarrow> (ResponseParams \<times> string) \<times> nat" where
  "teapot_createResponse req clock =
     ((ResponseParams_init\<lparr>response_code := 418, response_message := ''I am a teapot'',
                           headers := [(''Content-Type'', ''text/html'')]\<rparr>,
       ''Hello World at '' @ replicate clock (CHR ''I'')), Suc clock)"

text \<open>
  Two registered controllers: at address 1 the sample controller, at every other address a
  controller that accepts every path and method and writes an empty body.
\<close>

definition sample_obj :: "nat \<Rightarrow> nat Controller" where
  "sample_obj c =
     (if c = 1
      then DynamicController DynamicController_defaults 1 MyController_validPath
             MyController_createResponse
      else DynamicController DynamicController_defaults c (\<lambda>path mth. True)
             silent_createResponse)"

definition sample_server :: "string list \<Rightarrow> nat option list \<Rightarrow> WebServer" where
  "sample_server allowed cs =
     (WebServer_init 8080)\<lparr>options := options_init\<lparr>allowed_ips := allowed\<rparr>, controllers := cs\<rparr>"

text \<open>The addresses a trace allocated and freed, in order.\<close>

fun created :: "event list \<Rightarrow> nat list" where
  "created [] = []"
| "created (New_ConnectionState a # tr) = a # created tr"
| "created (e # tr) = created tr"

fun deleted :: "event list \<Rightarrow> nat list" where
  "deleted [] = []"
| "deleted (Delete_ConnectionState a # tr) = a # deleted tr"
| "deleted (e # tr) = deleted tr"

text \<open>
  Answers of the environment for one iteration: the port is taken, so \<^verbatim>\<open>bind\<close> fails; no
  descriptor is left, so \<^verbatim>\<open>socket\<close> fails; the engine does not start; everything works.
\<close>

definition bind_refused :: syscalls where
  "bind_refused =
     \<lparr>socket_ret = 3, setsockopt_ret = 0, bind_ret = - 1, listen_ret = 0,
      MHD_start_daemon_ret = None\<rparr>"

definition socket_refused :: syscalls where
  "socket_refused =
     \<lparr>socket_ret = - 1, setsockopt_ret = 0, bind_ret = 0, listen_ret = 0,
      MHD_start_daemon_ret = None\<rparr>"

definition engine_refused :: syscalls where
  "engine_refused =
     \<lparr>socket_ret = 3, setsockopt_ret = 0, bind_ret = 0, listen_ret = 0,
      MHD_start_daemon_ret = None\<rparr>"

definition all_granted :: syscalls where
  "all_granted =
     \<lparr>socket_ret = 3, setsockopt_ret = 0, bind_ret = 0, listen_ret = 0,
      MHD_start_daemon_ret = Some 1\<rparr>"

section \<open>Basic facts\<close>

lemma MHD_YES_neq_NO [simp]: "MHD_YES \<noteq> MHD_NO" "MHD_NO \<noteq> MHD_YES"
  by (simp_all add: MHD_YES_def MHD_NO_def)

lemma word_succ: "(c::32 word) < L \<Longrightarrow> unat (c + 1) = Suc (unat c)"
proof -
  assume a: "c < L"
  have "c + 1 \<noteq> 0"
  proof
    assume "c + 1 = 0"
    then have "c = - 1" by (simp add: eq_neg_iff_add_eq_0)
    with a show False by simp
  qed
  then have "1 + c \<noteq> 0" by (simp add: add.commute)
  then have "unat (1 + c) = Suc (unat c)" by (rule unatSuc)
  then show ?thesis by (simp add: add.commute)
qed

lemma deref_create_state:
  "deref (snd (create_state this w)) (length (heap w)) = Some (ConnectionState_init this)"
  by (simp add: create_state_def deref_def emit_def Let_def)

lemma deref_store: "deref w a = Some s \<Longrightarrow> deref (store a s' w) a = Some s'"
  by (auto simp: deref_def store_def split: if_splits)

lemma deref_emit: "deref (emit e w) a = deref w a"
  by (simp add: deref_def emit_def)

lemma handleRequest_fresh:
  "DynamicController_handleRequest cfg this cr req None w =
   DynamicController_handleRequest cfg this cr req (Some (length (heap w)))
     (snd (create_state this w))"
  by (simp add: DynamicController_handleRequest_def create_state_def Let_def)

lemma serve_fresh:
  "reqs \<noteq> [] \<Longrightarrow>
   serve (DynamicController_handleRequest cfg this cr) reqs None w =
   serve (DynamicController_handleRequest cfg this cr) reqs (Some (length (heap w)))
     (snd (create_state this w))"
  by (cases reqs) (simp_all add: handleRequest_fresh)

lemma serve_append:
  "serve h xs ptr w = Inr (rets, p, w') \<Longrightarrow> MHD_NO \<notin> set rets \<Longrightarrow>
   serve h (xs @ ys) ptr w =
     (case serve h ys p w' of Inl f \<Rightarrow> Inl f | Inr (rs, p', w'') \<Rightarrow> Inr (rets @ rs, p', w''))"
proof (induction xs arbitrary: ptr w rets)
  case Nil
  then show ?case by (auto split: sum.splits)
next
  case (Cons x xs)
  then show ?case
    by (auto split: sum.splits prod.splits if_splits)
qed

section \<open>The allow-list\<close>

text \<open>
  C4. \<open>is_allowed_ip\<close> answers true when some entry is the token \<open>*\<close> or the token \<open>all\<close>,
  and otherwise exactly when the address equals one of the entries; the comparison is that of
  the strings, so \<open>ALL\<close> is an ordinary entry.
\<close>

theorem is_allowed_ip_spec:
  "is_allowed_ip opts ip =
     (if ''*'' \<in> set (allowed_ips opts) \<or> ''all'' \<in> set (allowed_ips opts) then True
      else ip \<in> set (allowed_ips opts))"
  by (induction "allowed_ips opts" arbitrary: opts) (auto simp: is_allowed_ip_def list_ex_iff)

theorem is_allowed_ip_spec_witness:
  "is_allowed_ip options_init ''10.0.0.2''
   \<and> is_allowed_ip (options_init\<lparr>allowed_ips := [''10.0.0.1'', ''all'']\<rparr>) ''10.0.0.2''
   \<and> is_allowed_ip (options_init\<lparr>allowed_ips := [''10.0.0.1'', ''10.0.0.2'']\<rparr>) ''10.0.0.2''
   \<and> \<not> is_allowed_ip (options_init\<lparr>allowed_ips := [''10.0.0.1'']\<rparr>) ''10.0.0.2''
   \<and> \<not> is_allowed_ip (options_init\<lparr>allowed_ips := [''ALL'', ''* '']\<rparr>) ''10.0.0.2''
   \<and> \<not> is_allowed_ip (options_init\<lparr>allowed_ips := []\<rparr>) ''10.0.0.2''"
  using is_allowed_ip_spec [of options_init "''10.0.0.2''"]
    is_allowed_ip_spec [of "options_init\<lparr>allowed_ips := [''10.0.0.1'', ''all'']\<rparr>" "''10.0.0.2''"]
    is_allowed_ip_spec [of "options_init\<lparr>allowed_ips := [''10.0.0.1'', ''10.0.0.2'']\<rparr>" "''10.0.0.2''"]
    is_allowed_ip_spec [of "options_init\<lparr>allowed_ips := [''10.0.0.1'']\<rparr>" "''10.0.0.2''"]
    is_allowed_ip_spec [of "options_init\<lparr>allowed_ips := [''ALL'', ''* '']\<rparr>" "''10.0.0.2''"]
    is_allowed_ip_spec [of "options_init\<lparr>allowed_ips := []\<rparr>" "''10.0.0.2''"]
  by (simp add: options_init_def)

section \<open>Waiting for the body\<close>

lemma step_wait:
  assumes "deref w a = Some s" "\<not> response_sent s" "response_data s = []"
    "meth req = ''POST''" "upload_data req = None"
  shows "DynamicController_handleRequest cfg this cr req (Some a) w =
     (if request_waiting_loop_counter s + 1 > waiting_loops cfg
      then Inr (MHD_NO, Some a, store a (s\<lparr>request_waiting_loop_counter := request_waiting_loop_counter s + 1\<rparr>) w)
      else Inr (MHD_YES, Some a, emit (Nanosleep (waiting_usec_sleep cfg))
             (store a (s\<lparr>request_waiting_loop_counter := request_waiting_loop_counter s + 1\<rparr>) w)))"
  using assms by (simp add: DynamicController_handleRequest_def wait_for_upload_def Let_def)

lemma serve_wait:
  assumes "meth req = ''POST''" "upload_data req = None"
  shows "deref w a = Some s \<Longrightarrow> \<not> response_sent s \<Longrightarrow> response_data s = [] \<Longrightarrow>
    unat (request_waiting_loop_counter s) + n \<le> unat (waiting_loops cfg) \<Longrightarrow>
    serve (DynamicController_handleRequest cfg this cr) (replicate n req) (Some a) w =
      Inr (replicate n MHD_YES, Some a,
           w\<lparr>heap := (heap w)[a := Some (s\<lparr>request_waiting_loop_counter :=
                                             request_waiting_loop_counter s + of_nat n\<rparr>)],
             trace := trace w @ replicate n (Nanosleep (waiting_usec_sleep cfg))\<rparr>)"
proof (induction n arbitrary: w s)
  case 0
  then have "(heap w)[a := Some s] = heap w"
    by (auto simp: deref_def list_update_same_conv split: if_splits)
  then show ?case by simp
next
  case (Suc n)
  let ?c = "request_waiting_loop_counter s"
  let ?s1 = "s\<lparr>request_waiting_loop_counter := ?c + 1\<rparr>"
  let ?w1 = "emit (Nanosleep (waiting_usec_sleep cfg)) (store a ?s1 w)"
  from Suc.prems have lt: "?c < waiting_loops cfg"
    by (simp add: word_less_nat_alt)
  then have u: "unat (?c + 1) = Suc (unat ?c)" by (rule word_succ)
  with Suc.prems have le: "\<not> waiting_loops cfg < ?c + 1"
    by (simp add: word_less_nat_alt)
  have step: "DynamicController_handleRequest cfg this cr req (Some a) w = Inr (MHD_YES, Some a, ?w1)"
    using step_wait [OF Suc.prems(1-3) assms] le by simp
  have d1: "deref ?w1 a = Some ?s1"
    using Suc.prems(1) by (simp add: deref_emit deref_store)
  have ih: "serve (DynamicController_handleRequest cfg this cr) (replicate n req) (Some a) ?w1 =
      Inr (replicate n MHD_YES, Some a,
           ?w1\<lparr>heap := (heap ?w1)[a := Some (?s1\<lparr>request_waiting_loop_counter :=
                                             request_waiting_loop_counter ?s1 + of_nat n\<rparr>)],
             trace := trace ?w1 @ replicate n (Nanosleep (waiting_usec_sleep cfg))\<rparr>)"
    using Suc.prems u by (intro Suc.IH [OF d1]) simp_all
  have "serve (DynamicController_handleRequest cfg this cr) (replicate (Suc n) req) (Some a) w =
      Inr (MHD_YES # replicate n MHD_YES, Some a,
           ?w1\<lparr>heap := (heap ?w1)[a := Some (?s1\<lparr>request_waiting_loop_counter :=
                                             request_waiting_loop_counter ?s1 + of_nat n\<rparr>)],
             trace := trace ?w1 @ replicate n (Nanosleep (waiting_usec_sleep cfg))\<rparr>)"
  proof -
    have "serve (DynamicController_handleRequest cfg this cr) (replicate (Suc n) req) (Some a) w =
      (case serve (DynamicController_handleRequest cfg this cr) (replicate n req) (Some a) ?w1 of
         Inl f \<Rightarrow> Inl f | Inr (rets, p, w'') \<Rightarrow> Inr (MHD_YES # rets, p, w''))"
      by (simp add: step)
    also have "\<dots> = Inr (MHD_YES # replicate n MHD_YES, Some a,
           ?w1\<lparr>heap := (heap ?w1)[a := Some (?s1\<lparr>request_waiting_loop_counter :=
                                             request_waiting_loop_counter ?s1 + of_nat n\<rparr>)],
             trace := trace ?w1 @ replicate n (Nanosleep (waiting_usec_sleep cfg))\<rparr>)"
      by (simp only: ih sum.case prod.case)
    finally show ?thesis .
  qed
  then show ?case
    by (simp add: emit_def store_def add.assoc)
qed


lemma serve_wait_fresh:
  assumes "meth req = ''POST''" "upload_data req = None"
    and "0 < n" "n \<le> unat (waiting_loops cfg)"
  shows "serve (DynamicController_handleRequest cfg this cr) (replicate n req) None w =
      Inr (replicate n MHD_YES, Some (length (heap w)),
           w\<lparr>heap := heap w @ [Some ((ConnectionState_init this)\<lparr>request_waiting_loop_counter := of_nat n\<rparr>)],
             trace := trace w @ New_ConnectionState (length (heap w))
                        # replicate n (Nanosleep (waiting_usec_sleep cfg))\<rparr>)"
proof -
  let ?w0 = "snd (create_state this w)"
  have ne: "replicate n req \<noteq> []" using assms(3) by simp
  have "serve (DynamicController_handleRequest cfg this cr) (replicate n req) (Some (length (heap w))) ?w0 =
      Inr (replicate n MHD_YES, Some (length (heap w)),
           ?w0\<lparr>heap := (heap ?w0)[length (heap w) := Some ((ConnectionState_init this)\<lparr>request_waiting_loop_counter :=
                    request_waiting_loop_counter (ConnectionState_init this) + of_nat n\<rparr>)],
             trace := trace ?w0 @ replicate n (Nanosleep (waiting_usec_sleep cfg))\<rparr>)"
    using assms(4)
    by (intro serve_wait [OF assms(1,2) deref_create_state]) (simp_all add: ConnectionState_init_def)
  then show ?thesis
    by (simp add: serve_fresh [OF ne] create_state_def emit_def Let_def ConnectionState_init_def)
qed

lemma serve_wait_abort:
  assumes "meth req = ''POST''" "upload_data req = None"
    and "unat (waiting_loops cfg) < 2 ^ 32 - 1"
  shows "serve (DynamicController_handleRequest cfg this cr)
            (replicate (Suc (unat (waiting_loops cfg))) req) None w =
      Inr (replicate (unat (waiting_loops cfg)) MHD_YES @ [MHD_NO], Some (length (heap w)),
           w\<lparr>heap := heap w @ [Some ((ConnectionState_init this)\<lparr>request_waiting_loop_counter :=
                                       waiting_loops cfg + 1\<rparr>)],
             trace := trace w @ New_ConnectionState (length (heap w))
                        # replicate (unat (waiting_loops cfg)) (Nanosleep (waiting_usec_sleep cfg))\<rparr>)"
proof -
  let ?L = "waiting_loops cfg"
  let ?h = "DynamicController_handleRequest cfg this cr"
  let ?a = "length (heap w)"
  let ?w0 = "snd (create_state this w)"
  let ?s = "(ConnectionState_init this)\<lparr>request_waiting_loop_counter := ?L\<rparr>"
  let ?wn = "?w0\<lparr>heap := (heap ?w0)[?a := Some ?s],
             trace := trace ?w0 @ replicate (unat ?L) (Nanosleep (waiting_usec_sleep cfg))\<rparr>"
  have run: "serve ?h (replicate (unat ?L) req) (Some ?a) ?w0 = Inr (replicate (unat ?L) MHD_YES, Some ?a, ?wn)"
    using serve_wait [OF assms(1,2) deref_create_state, where n = "unat ?L" and cfg = cfg]
    by (simp add: ConnectionState_init_def)
  have dn: "deref ?wn ?a = Some ?s"
    by (simp add: deref_def create_state_def emit_def Let_def)
  have "?L \<noteq> - 1"
  proof
    assume "?L = - 1"
    then have "unat ?L = unat (- 1 :: 32 word)" by simp
    with assms(3) show False by (simp add: unsigned_minus_1_eq_mask mask_eq_exp_minus_1)
  qed
  then have "?L < - 1" by (simp add: word_order.not_eq_extremum)
  then have "unat (?L + 1) = Suc (unat ?L)" by (rule word_succ)
  then have gt: "?L < ?L + 1" by (simp add: word_less_nat_alt)
  have last: "?h req (Some ?a) ?wn =
     Inr (MHD_NO, Some ?a, store ?a (?s\<lparr>request_waiting_loop_counter := ?L + 1\<rparr>) ?wn)"
    using step_wait [OF dn _ _ assms(1,2), where cfg = cfg] gt
    by (simp add: ConnectionState_init_def)
  have "replicate (Suc (unat ?L)) req = replicate (unat ?L) req @ [req]"
    by (simp add: replicate_append_same)
  then have "serve ?h (replicate (Suc (unat ?L)) req) (Some ?a) ?w0 =
     Inr (replicate (unat ?L) MHD_YES @ [MHD_NO], Some ?a,
          store ?a (?s\<lparr>request_waiting_loop_counter := ?L + 1\<rparr>) ?wn)"
    using serve_append [OF run, of "[req]"] last by simp
  moreover have "serve ?h (replicate (Suc (unat ?L)) req) None w =
     serve ?h (replicate (Suc (unat ?L)) req) (Some ?a) ?w0"
    by (rule serve_fresh) simp
  ultimately show ?thesis
    by (simp add: store_def create_state_def emit_def Let_def ConnectionState_init_def)
qed

text \<open>
  C1. A POST activation with no upload data, on a state with nothing cached and nothing sent,
  increments the wait counter; it then returns \<^verbatim>\<open>MHD_NO\<close> when the counter exceeds
  \<^verbatim>\<open>waiting_loops\<close>, and otherwise sleeps \<^verbatim>\<open>waiting_usec_sleep\<close> and returns
  \<^verbatim>\<open>MHD_YES\<close>. On a new connection the first \<^verbatim>\<open>waiting_loops\<close> such activations all
  continue, each with one sleep, and the next one aborts (for any ceiling below the largest
  32-bit value): with a ceiling of 1, one activation waits and the second aborts.
\<close>

theorem waiting_for_upload_bounded:
  assumes "meth req = ''POST''" and "upload_data req = None"
  shows "(deref w a = Some s \<and> \<not> response_sent s \<and> response_data s = [] \<longrightarrow>
            DynamicController_handleRequest cfg this cr req (Some a) w =
              (if request_waiting_loop_counter s + 1 > waiting_loops cfg
               then Inr (MHD_NO, Some a,
                      store a (s\<lparr>request_waiting_loop_counter :=
                                   request_waiting_loop_counter s + 1\<rparr>) w)
               else Inr (MHD_YES, Some a,
                      emit (Nanosleep (waiting_usec_sleep cfg))
                        (store a (s\<lparr>request_waiting_loop_counter :=
                                     request_waiting_loop_counter s + 1\<rparr>) w))))
       \<and> (0 < n \<and> n \<le> unat (waiting_loops cfg) \<longrightarrow>
            serve (DynamicController_handleRequest cfg this cr) (replicate n req) None w =
              Inr (replicate n MHD_YES, Some (length (heap w)),
                   w\<lparr>heap := heap w @ [Some ((ConnectionState_init this)
                                 \<lparr>request_waiting_loop_counter := of_nat n\<rparr>)],
                     trace := trace w @ New_ConnectionState (length (heap w))
                                # replicate n (Nanosleep (waiting_usec_sleep cfg))\<rparr>))
       \<and> (unat (waiting_loops cfg) < 2 ^ 32 - 1 \<longrightarrow>
            serve (DynamicController_handleRequest cfg this cr)
                (replicate (Suc (unat (waiting_loops cfg))) req) None w =
              Inr (replicate (unat (waiting_loops cfg)) MHD_YES @ [MHD_NO], Some (length (heap w)),
                   w\<lparr>heap := heap w @ [Some ((ConnectionState_init this)
                                 \<lparr>request_waiting_loop_counter := waiting_loops cfg + 1\<rparr>)],
                     trace := trace w @ New_ConnectionState (length (heap w))
                                # replicate (unat (waiting_loops cfg))
                                    (Nanosleep (waiting_usec_sleep cfg))\<rparr>))"
  using step_wait [OF _ _ _ assms] serve_wait_fresh [OF assms] serve_wait_abort [OF assms]
  by blast

theorem waiting_for_upload_bounded_witness:
  "meth (request (peer AF_INET [10, 0, 0, 2] MHD_YES) ''/upload'' ''POST'' None) = ''POST''
   \<and> upload_data (request (peer AF_INET [10, 0, 0, 2] MHD_YES) ''/upload'' ''POST'' None) = None
   \<and> unat (waiting_loops (DynamicController_defaults\<lparr>waiting_loops := 1\<rparr>)) < 2 ^ 32 - 1
   \<and> serve (DynamicController_handleRequest (DynamicController_defaults\<lparr>waiting_loops := 1\<rparr>)
               7 MyController_createResponse)
         [request (peer AF_INET [10, 0, 0, 2] MHD_YES) ''/upload'' ''POST'' None,
          request (peer AF_INET [10, 0, 0, 2] MHD_YES) ''/upload'' ''POST'' None]
         None world_init =
       Inr ([MHD_YES, MHD_NO], Some 0,
            \<lparr>heap = [Some ((ConnectionState_init 7)\<lparr>request_waiting_loop_counter := 2\<rparr>)],
             user = 0,
             trace = [New_ConnectionState 0, Nanosleep \<lparr>tv_sec = 0, tv_nsec = 10000000\<rparr>]\<rparr>)
   \<and> serve (DynamicController_handleRequest DynamicController_defaults 7 MyController_createResponse)
         (replicate 300 (request (peer AF_INET [10, 0, 0, 2] MHD_YES) ''/upload'' ''POST'' None))
         None world_init =
       Inr (replicate 300 MHD_YES, Some 0,
            \<lparr>heap = [Some ((ConnectionState_init 7)\<lparr>request_waiting_loop_counter := 300\<rparr>)],
             user = 0,
             trace = New_ConnectionState 0 # replicate 300 (Nanosleep \<lparr>tv_sec = 0, tv_nsec = 10000000\<rparr>)\<rparr>)"
proof -
  let ?req = "request (peer AF_INET [10, 0, 0, 2] MHD_YES) ''/upload'' ''POST'' None"
  have m: "meth ?req = ''POST''" and u: "upload_data ?req = None"
    by (simp_all add: request_def)
  show ?thesis
    using waiting_for_upload_bounded [OF m u, where cfg = "DynamicController_defaults\<lparr>waiting_loops := 1\<rparr>"
        and this = 7 and cr = MyController_createResponse and w = world_init and n = 1]
      waiting_for_upload_bounded [OF m u, where cfg = DynamicController_defaults
        and this = 7 and cr = MyController_createResponse and w = world_init and n = 300]
    by (simp add: m u DynamicController_defaults_def world_init_def)
qed

section \<open>One activation of DynamicController::handleRequest\<close>

lemma step_abort:
  assumes "deref w a = Some s" "\<not> response_sent s" "response_data s = []"
    "\<not> (meth req = ''POST'' \<and> upload_data req = None)"
    "cr req (user w) = ((rp, body), u')" "uint (response_code rp) = MHD_NO"
  shows "DynamicController_handleRequest cfg this cr req (Some a) w =
     Inr (MHD_NO, Some a, w\<lparr>user := u', trace := trace w @ [Call_createResponse]\<rparr>)"
  using assms
  by (auto simp: DynamicController_handleRequest_def build_response_def emit_def Let_def)

lemma step_build:
  assumes "deref w a = Some s" "\<not> response_sent s" "response_data s = []"
    "\<not> (meth req = ''POST'' \<and> upload_data req = None)"
    "cr req (user w) = ((rp, body), u')" "uint (response_code rp) \<noteq> MHD_NO"
  shows "DynamicController_handleRequest cfg this cr req (Some a) w =
     Inr (MHD_YES, Some a,
       w\<lparr>heap := (heap w)[a := Some
                    (if queue_response_ret (connection req) = MHD_YES
                     then s\<lparr>response_data := body, response_headers := headers rp,
                            response_sent := True\<rparr>
                     else s\<lparr>response_data := body, response_headers := headers rp\<rparr>)],
         user := u',
         trace := trace w @ [Call_createResponse, Queue_response MHD_HTTP_OK body (headers rp)]\<rparr>)"
  using assms
  by (auto simp: DynamicController_handleRequest_def build_response_def queue_cached_response_def
      store_def emit_def Let_def)

lemma step_cached:
  assumes "deref w a = Some s" "\<not> response_sent s" "response_data s \<noteq> []"
  shows "DynamicController_handleRequest cfg this cr req (Some a) w =
     Inr (MHD_YES, Some a,
       w\<lparr>heap := (heap w)[a := Some
                    (if queue_response_ret (connection req) = MHD_YES
                     then s\<lparr>response_sent := True\<rparr> else s)],
         trace := trace w @ [Queue_response MHD_HTTP_OK (response_data s) (response_headers s)]\<rparr>)"
  using assms
  by (auto simp: DynamicController_handleRequest_def build_response_def queue_cached_response_def
      store_def emit_def Let_def)

lemma step_sent:
  assumes "deref w a = Some s" "response_sent s"
  shows "DynamicController_handleRequest cfg this cr req (Some a) w = Inr (MHD_YES, Some a, w)"
  using assms
  by (auto simp: DynamicController_handleRequest_def)

lemma step_dangling:
  assumes "deref w a = None"
  shows "DynamicController_handleRequest cfg this cr req (Some a) w = Inl (Invalid_ConnectionState a)"
  using assms
  by (auto simp: DynamicController_handleRequest_def)


text \<open>
  C6. When \<^verbatim>\<open>createResponse\<close> is called and returns the response code \<^verbatim>\<open>MHD_NO\<close>,
  \<^verbatim>\<open>handleRequest\<close> returns \<^verbatim>\<open>MHD_NO\<close> at once: the store is left as it was (so the
  cached body, the cached headers and \<^verbatim>\<open>response_sent\<close> are unchanged; on a first activation
  the state just created has its initial values), and the only calls made are the creation of
  the state, if any, and \<^verbatim>\<open>createResponse\<close> itself: nothing is queued.
\<close>

theorem createResponse_abort_caches_nothing:
  assumes "cr req (user w) = ((rp, body), u')" and "uint (response_code rp) = MHD_NO"
    and "\<not> (meth req = ''POST'' \<and> upload_data req = None)"
  shows "(deref w a = Some s \<and> \<not> response_sent s \<and> response_data s = [] \<longrightarrow>
            DynamicController_handleRequest cfg this cr req (Some a) w =
              Inr (MHD_NO, Some a, w\<lparr>user := u', trace := trace w @ [Call_createResponse]\<rparr>))
       \<and> DynamicController_handleRequest cfg this cr req None w =
            Inr (MHD_NO, Some (length (heap w)),
                 w\<lparr>heap := heap w @ [Some (ConnectionState_init this)], user := u',
                   trace := trace w @ [New_ConnectionState (length (heap w)), Call_createResponse]\<rparr>)"
proof -
  let ?w0 = "snd (create_state this w)"
  have "cr req (user ?w0) = ((rp, body), u')"
    using assms(1) by (simp add: create_state_def emit_def Let_def)
  then have "DynamicController_handleRequest cfg this cr req (Some (length (heap w))) ?w0 =
     Inr (MHD_NO, Some (length (heap w)), ?w0\<lparr>user := u', trace := trace ?w0 @ [Call_createResponse]\<rparr>)"
    using assms(2,3)
    by (intro step_abort [where cr = cr and req = req and rp = rp and body = body
          and u' = u', OF deref_create_state]) (simp_all add: ConnectionState_init_def)
  then have "DynamicController_handleRequest cfg this cr req None w =
            Inr (MHD_NO, Some (length (heap w)),
                 w\<lparr>heap := heap w @ [Some (ConnectionState_init this)], user := u',
                   trace := trace w @ [New_ConnectionState (length (heap w)), Call_createResponse]\<rparr>)"
    by (simp add: handleRequest_fresh create_state_def emit_def Let_def)
  then show ?thesis
    using step_abort [where cr = cr and req = req and w = w and rp = rp and body = body
        and u' = u', OF _ _ _ assms(3,1,2)] by blast
qed

theorem createResponse_abort_caches_nothing_witness:
  "DynamicController_handleRequest DynamicController_defaults 7 aborting_createResponse
        (request (peer AF_INET [10, 0, 0, 2] MHD_YES) ''/'' ''GET'' None) None world_init =
      Inr (MHD_NO, Some 0,
           \<lparr>heap = [Some (ConnectionState_init 7)], user = 1,
            trace = [New_ConnectionState 0, Call_createResponse]\<rparr>)
   \<and> DynamicController_handleRequest DynamicController_defaults 7 aborting_createResponse
        (request (peer AF_INET [10, 0, 0, 2] MHD_YES) ''/'' ''POST'' (Some ''a=1'')) (Some 0)
        (world_init\<lparr>heap := [Some ((ConnectionState_init 7)\<lparr>request_waiting_loop_counter := 1\<rparr>)]\<rparr>) =
      Inr (MHD_NO, Some 0,
           \<lparr>heap = [Some ((ConnectionState_init 7)\<lparr>request_waiting_loop_counter := 1\<rparr>)], user = 1,
            trace = [Call_createResponse]\<rparr>)"
proof -
  let ?get = "request (peer AF_INET [10, 0, 0, 2] MHD_YES) ''/'' ''GET'' None"
  let ?post = "request (peer AF_INET [10, 0, 0, 2] MHD_YES) ''/'' ''POST'' (Some ''a=1'')"
  let ?rp = "ResponseParams_init\<lparr>response_code := word_of_int MHD_NO\<rparr>"
  let ?s = "(ConnectionState_init 7)\<lparr>request_waiting_loop_counter := 1\<rparr>"
  let ?w = "world_init\<lparr>heap := [Some ?s]\<rparr>"
  have c1: "aborting_createResponse ?get (user world_init) = ((?rp, ''never sent''), 1)"
    and c2: "aborting_createResponse ?post (user ?w) = ((?rp, ''never sent''), 1)"
    by (simp_all add: aborting_createResponse_def world_init_def)
  have z: "uint (response_code ?rp) = MHD_NO"
    by (simp add: MHD_NO_def)
  have m1: "\<not> (meth ?get = ''POST'' \<and> upload_data ?get = None)"
    and m2: "\<not> (meth ?post = ''POST'' \<and> upload_data ?post = None)"
    by (simp_all add: request_def)
  have live: "deref ?w 0 = Some ?s \<and> \<not> response_sent ?s \<and> response_data ?s = []"
    by (simp add: deref_def world_init_def ConnectionState_init_def)
  show ?thesis
    using createResponse_abort_caches_nothing [where cr = aborting_createResponse and req = ?get
        and w = world_init and rp = ?rp and body = "''never sent''" and u' = 1
        and cfg = DynamicController_defaults and this = 7, OF c1 z m1]
      createResponse_abort_caches_nothing [where cr = aborting_createResponse and req = ?post
        and w = ?w and rp = ?rp and body = "''never sent''" and u' = 1 and a = 0 and s = ?s
        and cfg = DynamicController_defaults and this = 7, OF c2 z m2] live
    by (simp add: world_init_def)
qed

lemma handleRequest_queues_200:
  "DynamicController_handleRequest cfg this cr req ptr w = Inr (r, p, w') \<Longrightarrow>
   \<exists>evs. trace w' = trace w @ evs \<and> (\<forall>q \<in> set (queued evs). fst q = MHD_HTTP_OK)"
  by (auto simp: DynamicController_handleRequest_def wait_for_upload_def build_response_def
      queue_cached_response_def create_state_def store_def emit_def Let_def
      split: option.splits if_splits prod.splits)

lemma build_response_cong:
  assumes "snd (cr1 req (user w)) = snd (cr2 req (user w))"
    "snd (fst (cr1 req (user w))) = snd (fst (cr2 req (user w)))"
    "headers (fst (fst (cr1 req (user w)))) = headers (fst (fst (cr2 req (user w))))"
    "(uint (response_code (fst (fst (cr1 req (user w))))) = MHD_NO)
       = (uint (response_code (fst (fst (cr2 req (user w))))) = MHD_NO)"
  shows "build_response cr1 req s w = build_response cr2 req s w"
  using assms by (auto simp: build_response_def Let_def split: prod.splits)

lemma user_create_state: "user (snd (create_state this w)) = user w"
  by (simp add: create_state_def emit_def Let_def)

lemma handleRequest_cong:
  assumes "\<forall>rq u. snd (cr1 rq u) = snd (cr2 rq u)
             \<and> snd (fst (cr1 rq u)) = snd (fst (cr2 rq u))
             \<and> headers (fst (fst (cr1 rq u))) = headers (fst (fst (cr2 rq u)))
             \<and> ((uint (response_code (fst (fst (cr1 rq u)))) = MHD_NO)
                  = (uint (response_code (fst (fst (cr2 rq u)))) = MHD_NO))"
  shows "DynamicController_handleRequest cfg this cr1 req ptr w =
         DynamicController_handleRequest cfg this cr2 req ptr w"
proof -
  have "build_response cr1 req s v = build_response cr2 req s v" for s and v :: "'a world"
    using assms by (intro build_response_cong) simp_all
  then show ?thesis
    by (simp add: DynamicController_handleRequest_def split: prod.splits option.splits)
qed

text \<open>
  C10. Every response \<^verbatim>\<open>DynamicController::handleRequest\<close> queues has the status
  \<^verbatim>\<open>MHD_HTTP_OK\<close>. The \<^verbatim>\<open>response_code\<close> that \<^verbatim>\<open>createResponse\<close> returns is only tested
  against \<^verbatim>\<open>MHD_NO\<close>: two build steps that agree on the body, the headers, their own state and
  on whether the code is \<^verbatim>\<open>MHD_NO\<close> give the same activation, whatever the codes are. The
  code of a default-constructed \<^verbatim>\<open>ResponseParams\<close> is \<^verbatim>\<open>MHD_YES\<close>, that is 1.
\<close>

theorem queued_status_is_MHD_HTTP_OK:
  "(DynamicController_handleRequest cfg this cr req ptr w = Inr (r, p, w') \<longrightarrow>
      (\<exists>evs. trace w' = trace w @ evs \<and> (\<forall>q \<in> set (queued evs). fst q = MHD_HTTP_OK)))
   \<and> ((\<forall>rq u. snd (cr1 rq u) = snd (cr2 rq u)
             \<and> snd (fst (cr1 rq u)) = snd (fst (cr2 rq u))
             \<and> headers (fst (fst (cr1 rq u))) = headers (fst (fst (cr2 rq u)))
             \<and> ((uint (response_code (fst (fst (cr1 rq u)))) = MHD_NO)
                  = (uint (response_code (fst (fst (cr2 rq u)))) = MHD_NO))) \<longrightarrow>
        DynamicController_handleRequest cfg this cr1 req ptr w =
        DynamicController_handleRequest cfg this cr2 req ptr w)
   \<and> uint (response_code ResponseParams_init) = MHD_YES \<and> MHD_YES = 1 \<and> MHD_HTTP_OK = 200"
  using handleRequest_queues_200 [of cfg this cr req ptr w r p w']
    handleRequest_cong [of cr1 cr2 cfg this req ptr w]
  by (simp add: ResponseParams_init_def MHD_YES_def MHD_HTTP_OK_def)

theorem queued_status_is_MHD_HTTP_OK_witness:
  "DynamicController_handleRequest DynamicController_defaults 7 teapot_createResponse
       (request (peer AF_INET [10, 0, 0, 2] MHD_YES) ''/'' ''GET'' None) None world_init =
     Inr (MHD_YES, Some 0,
          \<lparr>heap = [Some ((ConnectionState_init 7)
                     \<lparr>response_sent := True, response_headers := [(''Content-Type'', ''text/html'')],
                      response_data := ''Hello World at ''\<rparr>)],
           user = 1,
           trace = [New_ConnectionState 0, Call_createResponse,
                    Queue_response 200 ''Hello World at '' [(''Content-Type'', ''text/html'')]]\<rparr>)
   \<and> DynamicController_handleRequest DynamicController_defaults 7 MyController_createResponse
       (request (peer AF_INET [10, 0, 0, 2] MHD_YES) ''/'' ''GET'' None) None world_init =
     DynamicController_handleRequest DynamicController_defaults 7 teapot_createResponse
       (request (peer AF_INET [10, 0, 0, 2] MHD_YES) ''/'' ''GET'' None) None world_init"
proof -
  let ?get = "request (peer AF_INET [10, 0, 0, 2] MHD_YES) ''/'' ''GET'' None"
  have agree: "\<forall>rq u. snd (MyController_createResponse rq u) = snd (teapot_createResponse rq u)
       \<and> snd (fst (MyController_createResponse rq u)) = snd (fst (teapot_createResponse rq u))
       \<and> headers (fst (fst (MyController_createResponse rq u)))
            = headers (fst (fst (teapot_createResponse rq u)))
       \<and> ((uint (response_code (fst (fst (MyController_createResponse rq u)))) = MHD_NO)
            = (uint (response_code (fst (fst (teapot_createResponse rq u)))) = MHD_NO))"
    by (simp add: MyController_createResponse_def teapot_createResponse_def
        ResponseParams_init_def MHD_YES_def MHD_NO_def)
  have run: "DynamicController_handleRequest DynamicController_defaults 7 teapot_createResponse
       ?get None world_init =
     Inr (MHD_YES, Some 0,
          \<lparr>heap = [Some ((ConnectionState_init 7)
                     \<lparr>response_sent := True, response_headers := [(''Content-Type'', ''text/html'')],
                      response_data := ''Hello World at ''\<rparr>)],
           user = 1,
           trace = [New_ConnectionState 0, Call_createResponse,
                    Queue_response 200 ''Hello World at '' [(''Content-Type'', ''text/html'')]]\<rparr>)"
    by (simp add: DynamicController_handleRequest_def build_response_def queue_cached_response_def
        create_state_def store_def emit_def deref_def Let_def world_init_def request_def peer_def
        teapot_createResponse_def ResponseParams_init_def ConnectionState_init_def
        MHD_YES_def MHD_NO_def MHD_HTTP_OK_def)
  have same: "DynamicController_handleRequest DynamicController_defaults 7
       MyController_createResponse ?get None world_init =
     DynamicController_handleRequest DynamicController_defaults 7 teapot_createResponse
       ?get None world_init"
    using queued_status_is_MHD_HTTP_OK [where ?cr1.0 = MyController_createResponse
        and ?cr2.0 = teapot_createResponse and cfg = DynamicController_defaults and this = 7
        and req = ?get and ptr = None and w = world_init] agree
    by blast
  show ?thesis
    using same run by simp
qed

section \<open>The dispatcher\<close>

lemma dispatch_no_match:
  "\<forall>p \<in> set cs. \<not> matches obj req p \<Longrightarrow>
   dispatch obj cs req ptr w =
     Inr (queue_response_ret (connection req), ptr,
          w\<lparr>trace := trace w @ validPath_calls cs req @ [Queue_response MHD_HTTP_NOT_FOUND [] []]\<rparr>)"
proof (induction cs arbitrary: w)
  case Nil
  then show ?case by (simp add: validPath_calls_def emit_def)
next
  case (Cons p cs)
  then show ?case
    by (cases p) (simp_all add: validPath_calls_def emit_def matches_def Let_def)
qed

lemma dispatch_first_match:
  "\<forall>p \<in> set pre. \<not> matches obj req p \<Longrightarrow> validPath (obj c) (url req) (meth req) \<Longrightarrow>
   dispatch obj (pre @ Some c # post) req ptr w =
     handleRequest (obj c) req ptr
       (w\<lparr>trace := trace w @ validPath_calls pre req
                     @ [Call_validPath c (url req) (meth req), Call_handleRequest c]\<rparr>)"
proof (induction pre arbitrary: w)
  case Nil
  then show ?case by (simp add: validPath_calls_def emit_def Let_def)
next
  case (Cons p pre)
  then show ?case
    by (cases p) (simp_all add: validPath_calls_def emit_def matches_def Let_def)
qed

text \<open>
  C3. For a request from an allowed source, \<^verbatim>\<open>request_handler\<close> asks the controllers in
  registration order, passing over null pointers, and hands the request to the first one whose
  \<^verbatim>\<open>validPath\<close> accepts it, whatever is registered after it; when none accepts, it queues a
  404 response with an empty body and no headers.
\<close>

theorem first_registered_match_wins:
  assumes "is_ip_allowed inet_ntop srv (connection req)"
  shows "(controllers srv = pre @ Some c # post \<and> (\<forall>p \<in> set pre. \<not> matches obj req p)
            \<and> validPath (obj c) (url req) (meth req) \<longrightarrow>
          request_handler inet_ntop obj srv req ptr w =
            handleRequest (obj c) req ptr
              (w\<lparr>trace := trace w @ validPath_calls pre req
                            @ [Call_validPath c (url req) (meth req), Call_handleRequest c]\<rparr>))
       \<and> ((\<forall>p \<in> set (controllers srv). \<not> matches obj req p) \<longrightarrow>
          request_handler inet_ntop obj srv req ptr w =
            Inr (queue_response_ret (connection req), ptr,
                 w\<lparr>trace := trace w @ validPath_calls (controllers srv) req
                               @ [Queue_response MHD_HTTP_NOT_FOUND [] []]\<rparr>))"
  using assms dispatch_first_match [of pre obj req c post ptr w]
    dispatch_no_match [of "controllers srv" obj req ptr w]
  by (simp add: request_handler_def)

text \<open>
  C5. When the allow-list denies the source address, \<^verbatim>\<open>request_handler\<close> queues a 403
  response with an empty body and returns what the transport answered: the result does not
  depend on the registered controllers, and the only call recorded is that of
  \<^verbatim>\<open>MHD_queue_response\<close>, so no \<^verbatim>\<open>validPath\<close> and no \<^verbatim>\<open>handleRequest\<close> ran.
\<close>

theorem forbidden_before_dispatch:
  assumes "\<not> is_ip_allowed inet_ntop srv (connection req)"
  shows "request_handler inet_ntop obj srv req ptr w =
           Inr (queue_response_ret (connection req), ptr,
                w\<lparr>trace := trace w @ [Queue_response MHD_HTTP_FORBIDDEN [] []]\<rparr>)"
  using assms by (simp add: request_handler_def emit_def)

lemma connection_ip_unsupported: "unsupported_peer con \<Longrightarrow> connection_ip inet_ntop con = []"
  by (auto simp: unsupported_peer_def connection_ip_def split: option.splits)

lemma is_allowed_ip_iff:
  "is_allowed_ip opts ip =
     (''*'' \<in> set (allowed_ips opts) \<or> ''all'' \<in> set (allowed_ips opts) \<or> ip \<in> set (allowed_ips opts))"
  by (auto simp: is_allowed_ip_def list_ex_iff)

text \<open>
  C9, as amended. For a peer descriptor that is absent or of a family other than
  \<^verbatim>\<open>AF_INET\<close> and \<^verbatim>\<open>AF_INET6\<close>, \<^verbatim>\<open>connection_ip\<close> gives the empty string. The admission
  check then treats the empty string like any other address: it admits the connection when the
  allow-list has the entry \<open>*\<close> or \<open>all\<close> (or an empty entry), and denies it otherwise, in
  which case the request is answered with 403 before any controller is asked.
\<close>

theorem unsupported_peer_admission:
  assumes "unsupported_peer (connection req)"
  shows "connection_ip inet_ntop (connection req) = []
       \<and> is_ip_allowed inet_ntop srv (connection req) =
           (''*'' \<in> set (allowed_ips (options srv)) \<or> ''all'' \<in> set (allowed_ips (options srv))
            \<or> [] \<in> set (allowed_ips (options srv)))
       \<and> (''*'' \<notin> set (allowed_ips (options srv)) \<and> ''all'' \<notin> set (allowed_ips (options srv))
            \<and> [] \<notin> set (allowed_ips (options srv)) \<longrightarrow>
          request_handler inet_ntop obj srv req ptr w =
            Inr (queue_response_ret (connection req), ptr,
                 w\<lparr>trace := trace w @ [Queue_response MHD_HTTP_FORBIDDEN [] []]\<rparr>))"
  using connection_ip_unsupported [OF assms, of inet_ntop]
  by (simp add: is_ip_allowed_def is_allowed_ip_iff request_handler_def emit_def)

lemmas sample_eval =
  request_handler_def is_ip_allowed_def is_allowed_ip_def connection_ip_def
  DynamicController_handleRequest_def DynamicController_def build_response_def
  queue_cached_response_def wait_for_upload_def create_state_def store_def emit_def deref_def
  Let_def world_init_def request_def peer_def sample_obj_def sample_server_def WebServer_init_def
  options_init_def MyController_createResponse_def MyController_validPath_def
  silent_createResponse_def ResponseParams_init_def ConnectionState_init_def
  dotted_inet_ntop_def no_inet_ntop_def AF_INET_def AF_INET6_def
  MHD_YES_def MHD_NO_def MHD_HTTP_OK_def MHD_HTTP_NOT_FOUND_def MHD_HTTP_FORBIDDEN_def
  matches_def validPath_calls_def unsupported_peer_def

theorem first_registered_match_wins_witness:
  "is_ip_allowed dotted_inet_ntop (sample_server [''*''] [None, Some 1, Some 2])
      (peer AF_INET [10, 0, 0, 2] MHD_YES)
   \<and> matches sample_obj (request (peer AF_INET [10, 0, 0, 2] MHD_YES) ''/'' ''GET'' None) (Some 1)
   \<and> matches sample_obj (request (peer AF_INET [10, 0, 0, 2] MHD_YES) ''/'' ''GET'' None) (Some 2)
   \<and> request_handler dotted_inet_ntop sample_obj (sample_server [''*''] [None, Some 1, Some 2])
        (request (peer AF_INET [10, 0, 0, 2] MHD_YES) ''/'' ''GET'' None) None world_init =
      Inr (1, Some 0,
           \<lparr>heap = [Some \<lparr>conroller = 1, request_data = [], response_sent = True,
                          response_headers = [(''Content-Type'', ''text/html'')],
                          response_data = ''Hello World at '',
                          request_waiting_loop_counter = 0\<rparr>],
            user = 1,
            trace = [Call_validPath 1 ''/'' ''GET'', Call_handleRequest 1, New_ConnectionState 0,
                     Call_createResponse,
                     Queue_response 200 ''Hello World at '' [(''Content-Type'', ''text/html'')]]\<rparr>)
   \<and> request_handler dotted_inet_ntop sample_obj (sample_server [''*''] [None, Some 1])
        (request (peer AF_INET [10, 0, 0, 2] MHD_YES) ''/missing'' ''GET'' None) None world_init =
      Inr (1, None,
           \<lparr>heap = [], user = 0,
            trace = [Call_validPath 1 ''/missing'' ''GET'', Queue_response 404 [] []]\<rparr>)"
proof -
  let ?con = "peer AF_INET [10, 0, 0, 2] MHD_YES"
  let ?hit = "request ?con ''/'' ''GET'' None"
  let ?miss = "request ?con ''/missing'' ''GET'' None"
  have ok: "is_ip_allowed dotted_inet_ntop (sample_server [''*''] cs) (connection (request ?con path ''GET'' None))"
    for cs path
    by (simp add: sample_eval)
  have m: "matches sample_obj ?hit (Some 1)" "matches sample_obj ?hit (Some 2)"
    by (simp_all add: sample_eval)
  have shape: "controllers (sample_server [''*''] [None, Some 1, Some 2]) = [None] @ Some 1 # [Some 2]
      \<and> (\<forall>p \<in> set [None]. \<not> matches sample_obj ?hit p)
      \<and> validPath (sample_obj 1) (url ?hit) (meth ?hit)"
    by (simp add: sample_eval)
  have none: "\<forall>p \<in> set (controllers (sample_server [''*''] [None, Some 1])). \<not> matches sample_obj ?miss p"
    by (simp add: sample_eval)
  have hit: "request_handler dotted_inet_ntop sample_obj (sample_server [''*''] [None, Some 1, Some 2])
        ?hit None world_init =
      handleRequest (sample_obj 1) ?hit None
        (world_init\<lparr>trace := trace world_init @ validPath_calls [None] ?hit
             @ [Call_validPath 1 (url ?hit) (meth ?hit), Call_handleRequest 1]\<rparr>)"
    using first_registered_match_wins [OF ok, where pre = "[None]" and c = 1 and post = "[Some 2]"
        and obj = sample_obj] shape
    by blast
  have miss: "request_handler dotted_inet_ntop sample_obj (sample_server [''*''] [None, Some 1])
        ?miss None world_init =
      Inr (queue_response_ret (connection ?miss), None,
           world_init\<lparr>trace := trace world_init
              @ validPath_calls (controllers (sample_server [''*''] [None, Some 1])) ?miss
              @ [Queue_response MHD_HTTP_NOT_FOUND [] []]\<rparr>)"
    using first_registered_match_wins [OF ok, where obj = sample_obj] none
    by blast
  have "is_ip_allowed dotted_inet_ntop (sample_server [''*''] [None, Some 1, Some 2]) ?con"
    using ok [of "[None, Some 1, Some 2]" "''/''"] by (simp add: request_def)
  moreover note m
  moreover have "request_handler dotted_inet_ntop sample_obj (sample_server [''*''] [None, Some 1, Some 2])
        ?hit None world_init =
      Inr (1, Some 0,
           \<lparr>heap = [Some \<lparr>conroller = 1, request_data = [], response_sent = True,
                          response_headers = [(''Content-Type'', ''text/html'')],
                          response_data = ''Hello World at '',
                          request_waiting_loop_counter = 0\<rparr>],
            user = 1,
            trace = [Call_validPath 1 ''/'' ''GET'', Call_handleRequest 1, New_ConnectionState 0,
                     Call_createResponse,
                     Queue_response 200 ''Hello World at '' [(''Content-Type'', ''text/html'')]]\<rparr>)"
    unfolding hit by (simp add: sample_eval)
  moreover have "request_handler dotted_inet_ntop sample_obj (sample_server [''*''] [None, Some 1])
        ?miss None world_init =
      Inr (1, None,
           \<lparr>heap = [], user = 0,
            trace = [Call_validPath 1 ''/missing'' ''GET'', Queue_response 404 [] []]\<rparr>)"
    unfolding miss by (simp add: sample_eval)
  ultimately show ?thesis by blast
qed

theorem forbidden_before_dispatch_witness:
  "\<not> is_ip_allowed dotted_inet_ntop (sample_server [''10.0.0.1''] [None, Some 1, Some 2])
        (peer AF_INET [10, 0, 0, 2] MHD_YES)
   \<and> request_handler dotted_inet_ntop sample_obj (sample_server [''10.0.0.1''] [None, Some 1, Some 2])
        (request (peer AF_INET [10, 0, 0, 2] MHD_YES) ''/'' ''GET'' None) None world_init =
      Inr (1, None, \<lparr>heap = [], user = 0, trace = [Queue_response 403 [] []]\<rparr>)"
proof -
  let ?con = "peer AF_INET [10, 0, 0, 2] MHD_YES"
  let ?srv = "sample_server [''10.0.0.1''] [None, Some 1, Some 2]"
  have denied: "\<not> is_ip_allowed dotted_inet_ntop ?srv (connection (request ?con ''/'' ''GET'' None))"
    by (simp add: sample_eval)
  show ?thesis
    using forbidden_before_dispatch [OF denied, of sample_obj None world_init] denied
    by (simp add: sample_eval)
qed

theorem unsupported_peer_admitted_counterexample:
  "unsupported_peer (peer 1 [] MHD_YES)
   \<and> connection_ip no_inet_ntop (peer 1 [] MHD_YES) = []
   \<and> is_ip_allowed no_inet_ntop (sample_server [''*''] [Some 1]) (peer 1 [] MHD_YES)
   \<and> request_handler no_inet_ntop sample_obj (sample_server [''*''] [Some 1])
        (request (peer 1 [] MHD_YES) ''/'' ''GET'' None) None world_init =
      Inr (1, Some 0,
           \<lparr>heap = [Some \<lparr>conroller = 1, request_data = [], response_sent = True,
                          response_headers = [(''Content-Type'', ''text/html'')],
                          response_data = ''Hello World at '',
                          request_waiting_loop_counter = 0\<rparr>],
            user = 1,
            trace = [Call_validPath 1 ''/'' ''GET'', Call_handleRequest 1, New_ConnectionState 0,
                     Call_createResponse,
                     Queue_response 200 ''Hello World at '' [(''Content-Type'', ''text/html'')]]\<rparr>)"
  by (simp add: sample_eval)

theorem unsupported_peer_admission_witness:
  "unsupported_peer (peer 1 [] MHD_YES)
   \<and> connection_ip no_inet_ntop (peer 1 [] MHD_YES) = []
   \<and> \<not> is_ip_allowed no_inet_ntop (sample_server [''10.0.0.1''] [Some 1]) (peer 1 [] MHD_YES)
   \<and> request_handler no_inet_ntop sample_obj (sample_server [''10.0.0.1''] [Some 1])
        (request (peer 1 [] MHD_YES) ''/'' ''GET'' None) None world_init =
      Inr (1, None, \<lparr>heap = [], user = 0, trace = [Queue_response 403 [] []]\<rparr>)
   \<and> is_ip_allowed no_inet_ntop (sample_server [''*''] [Some 1]) (peer 1 [] MHD_YES)"
proof -
  let ?req = "request (peer 1 [] MHD_YES) ''/'' ''GET'' None"
  have u: "unsupported_peer (connection ?req)"
    by (simp add: sample_eval)
  show ?thesis
    using unsupported_peer_admission [OF u, of no_inet_ntop "sample_server [''10.0.0.1''] [Some 1]"
        sample_obj None world_init]
      unsupported_peer_admission [OF u, of no_inet_ntop "sample_server [''*''] [Some 1]"
        sample_obj None world_init] u
    by (simp add: sample_eval)
qed

section \<open>The lifetime of a ConnectionState\<close>

lemma created_append: "created (xs @ ys) = created xs @ created ys"
  by (induction xs rule: created.induct) simp_all

lemma deleted_append: "deleted (xs @ ys) = deleted xs @ deleted ys"
  by (induction xs rule: deleted.induct) simp_all

lemma queued_append: "queued (xs @ ys) = queued xs @ queued ys"
  by (induction xs rule: queued.induct) simp_all

lemma createResponse_calls_append:
  "createResponse_calls (xs @ ys) = createResponse_calls xs + createResponse_calls ys"
  by (simp add: createResponse_calls_def)

lemma heap_same: "deref w a = Some s \<Longrightarrow> (heap w)[a := Some s] = heap w"
  by (auto simp: deref_def list_update_same_conv split: if_splits)

lemma shapeI:
  "h = Inr (r, Some a, w\<lparr>heap := (heap w)[a := Some s'], user := u', trace := trace w @ evs\<rparr>) \<Longrightarrow>
   conroller s' = c \<Longrightarrow> created evs = [] \<Longrightarrow> deleted evs = [] \<Longrightarrow>
   \<exists>r s' u' evs.
     h = Inr (r, Some a, w\<lparr>heap := (heap w)[a := Some s'], user := u', trace := trace w @ evs\<rparr>)
     \<and> conroller s' = c \<and> created evs = [] \<and> deleted evs = []"
  by blast

lemma step_shape:
  assumes "deref w a = Some s"
  shows "\<exists>r s' u' evs.
     DynamicController_handleRequest cfg this cr req (Some a) w =
       Inr (r, Some a, w\<lparr>heap := (heap w)[a := Some s'], user := u', trace := trace w @ evs\<rparr>)
     \<and> conroller s' = conroller s \<and> created evs = [] \<and> deleted evs = []"
proof -
  consider (sent) "response_sent s"
    | (wait) "\<not> response_sent s" "response_data s = []" "meth req = ''POST''" "upload_data req = None"
    | (build) "\<not> response_sent s" "response_data s = []" "\<not> (meth req = ''POST'' \<and> upload_data req = None)"
    | (cached) "\<not> response_sent s" "response_data s \<noteq> []"
    by auto
  then show ?thesis
  proof cases
    case sent
    have "DynamicController_handleRequest cfg this cr req (Some a) w =
       Inr (MHD_YES, Some a, w\<lparr>heap := (heap w)[a := Some s], user := user w, trace := trace w @ []\<rparr>)"
      using step_sent [OF assms sent] heap_same [OF assms] by simp
    then show ?thesis by (rule shapeI) simp_all
  next
    case wait
    let ?s' = "s\<lparr>request_waiting_loop_counter := request_waiting_loop_counter s + 1\<rparr>"
    show ?thesis
    proof (cases "request_waiting_loop_counter s + 1 > waiting_loops cfg")
      case True
      then have "DynamicController_handleRequest cfg this cr req (Some a) w =
         Inr (MHD_NO, Some a, w\<lparr>heap := (heap w)[a := Some ?s'], user := user w, trace := trace w @ []\<rparr>)"
        using step_wait [OF assms wait, of cfg this cr] by (simp add: store_def)
      then show ?thesis by (rule shapeI) simp_all
    next
      case False
      then have "DynamicController_handleRequest cfg this cr req (Some a) w =
         Inr (MHD_YES, Some a, w\<lparr>heap := (heap w)[a := Some ?s'], user := user w,
               trace := trace w @ [Nanosleep (waiting_usec_sleep cfg)]\<rparr>)"
        using step_wait [OF assms wait, of cfg this cr] by (simp add: store_def emit_def)
      then show ?thesis by (rule shapeI) simp_all
    qed
  next
    case build
    obtain rp body u' where cr: "cr req (user w) = ((rp, body), u')"
      by (metis prod.exhaust)
    show ?thesis
    proof (cases "uint (response_code rp) = MHD_NO")
      case True
      have "DynamicController_handleRequest cfg this cr req (Some a) w =
         Inr (MHD_NO, Some a, w\<lparr>heap := (heap w)[a := Some s], user := u',
               trace := trace w @ [Call_createResponse]\<rparr>)"
        using step_abort [where cr = cr and req = req and w = w and rp = rp and body = body
            and u' = u', OF assms build cr True] heap_same [OF assms]
        by simp
      then show ?thesis by (rule shapeI) simp_all
    next
      case False
      show ?thesis
        by (rule shapeI [OF step_build [where cr = cr and req = req and w = w and rp = rp
                and body = body and u' = u', OF assms build cr False]]) simp_all
    qed
  next
    case cached
    have "DynamicController_handleRequest cfg this cr req (Some a) w =
       Inr (MHD_YES, Some a,
         w\<lparr>heap := (heap w)[a := Some
                      (if queue_response_ret (connection req) = MHD_YES
                       then s\<lparr>response_sent := True\<rparr> else s)],
           user := user w,
           trace := trace w @ [Queue_response MHD_HTTP_OK (response_data s) (response_headers s)]\<rparr>)"
      using step_cached [OF assms cached, of cfg this cr req] by simp
    then show ?thesis by (rule shapeI) simp_all
  qed
qed

lemma serve_shape:
  "deref w a = Some s \<Longrightarrow>
   \<exists>rets s' u' evs.
     serve (DynamicController_handleRequest cfg this cr) reqs (Some a) w =
       Inr (rets, Some a, w\<lparr>heap := (heap w)[a := Some s'], user := u', trace := trace w @ evs\<rparr>)
     \<and> conroller s' = conroller s \<and> created evs = [] \<and> deleted evs = []"
proof (induction reqs arbitrary: w s)
  case Nil
  have "serve (DynamicController_handleRequest cfg this cr) [] (Some a) w =
     Inr ([], Some a, w\<lparr>heap := (heap w)[a := Some s], user := user w, trace := trace w @ []\<rparr>)"
    using heap_same [OF Nil] by simp
  then show ?case by (rule shapeI) simp_all
next
  case (Cons req reqs)
  let ?h = "DynamicController_handleRequest cfg this cr"
  from step_shape [OF Cons.prems, of cfg this cr req]
  obtain r s1 u1 evs1 where
    step: "?h req (Some a) w =
       Inr (r, Some a, w\<lparr>heap := (heap w)[a := Some s1], user := u1, trace := trace w @ evs1\<rparr>)"
    and s1: "conroller s1 = conroller s" "created evs1 = []" "deleted evs1 = []"
    by blast
  let ?w1 = "w\<lparr>heap := (heap w)[a := Some s1], user := u1, trace := trace w @ evs1\<rparr>"
  show ?case
  proof (cases "r = MHD_NO")
    case True
    then have "serve ?h (req # reqs) (Some a) w = Inr ([r], Some a, ?w1)"
      by (simp add: step)
    then show ?thesis by (rule shapeI) (simp_all add: s1)
  next
    case False
    from Cons.prems have "a < length (heap w)"
      by (auto simp: deref_def split: if_splits)
    then have d1: "deref ?w1 a = Some s1"
      by (simp add: deref_def)
    from Cons.IH [OF d1]
    obtain rets s2 u2 evs2 where
      run: "serve ?h reqs (Some a) ?w1 =
         Inr (rets, Some a, ?w1\<lparr>heap := (heap ?w1)[a := Some s2], user := u2, trace := trace ?w1 @ evs2\<rparr>)"
      and s2: "conroller s2 = conroller s1" "created evs2 = []" "deleted evs2 = []"
      by blast
    have "serve ?h (req # reqs) (Some a) w =
       Inr (r # rets, Some a, w\<lparr>heap := (heap w)[a := Some s2], user := u2, trace := trace w @ (evs1 @ evs2)\<rparr>)"
      using False by (simp add: step run)
    then show ?thesis
      by (rule shapeI) (simp_all add: s1 s2 created_append deleted_append)
  qed
qed

lemma complete_default:
  assumes "deref w a = Some cs" "handleComplete (obj (conroller cs)) = Controller_handleComplete"
  shows "request_complete_handler obj con (Some a) toe w =
     Inr (w\<lparr>heap := (heap w)[a := None], trace := trace w @ [Delete_ConnectionState a]\<rparr>)"
  using assms by (simp add: request_complete_handler_def Controller_handleComplete_def emit_def)

lemma connection_lifetime:
  assumes "handleComplete (obj this) = Controller_handleComplete"
  shows "\<exists>rets ptr w1 w2 evs.
     serve (DynamicController_handleRequest cfg this cr) reqs None w = Inr (rets, ptr, w1)
     \<and> request_complete_handler obj con ptr toe w1 = Inr w2
     \<and> trace w2 = trace w @ evs
     \<and> created evs = (if reqs = [] then [] else [length (heap w)])
     \<and> deleted evs = created evs
     \<and> (\<forall>b. deref w2 b = (if b < length (heap w) then deref w b else None))"
proof (cases "reqs = []")
  case True
  then show ?thesis
    by (simp add: request_complete_handler_def deref_def)
next
  case False
  let ?a = "length (heap w)"
  let ?w0 = "snd (create_state this w)"
  from serve_shape [where w = ?w0 and a = ?a and s = "ConnectionState_init this" and cfg = cfg
      and this = this and cr = cr and reqs = reqs, OF deref_create_state]
  obtain rets s' u' evs where
    run: "serve (DynamicController_handleRequest cfg this cr) reqs (Some ?a) ?w0 =
       Inr (rets, Some ?a, ?w0\<lparr>heap := (heap ?w0)[?a := Some s'], user := u', trace := trace ?w0 @ evs\<rparr>)"
    and s': "conroller s' = conroller (ConnectionState_init this)" "created evs = []" "deleted evs = []"
    by blast
  let ?w1 = "?w0\<lparr>heap := (heap ?w0)[?a := Some s'], user := u', trace := trace ?w0 @ evs\<rparr>"
  let ?w2 = "?w1\<lparr>heap := (heap ?w1)[?a := None], trace := trace ?w1 @ [Delete_ConnectionState ?a]\<rparr>"
  have d1: "deref ?w1 ?a = Some s'"
    by (simp add: deref_def create_state_def emit_def Let_def)
  have c: "handleComplete (obj (conroller s')) = Controller_handleComplete"
    using assms s'(1) by (simp add: ConnectionState_init_def)
  have fin: "request_complete_handler obj con (Some ?a) toe ?w1 = Inr ?w2"
    by (rule complete_default [where obj = obj, OF d1 c])
  have tr: "trace ?w2 = trace w @ (New_ConnectionState ?a # evs @ [Delete_ConnectionState ?a])"
    by (simp add: create_state_def emit_def Let_def)
  have live: "deref ?w2 b = (if b < length (heap w) then deref w b else None)" for b
    by (simp add: deref_def create_state_def emit_def Let_def nth_append)
  let ?evs = "New_ConnectionState ?a # evs @ [Delete_ConnectionState ?a]"
  have run': "serve (DynamicController_handleRequest cfg this cr) reqs None w = Inr (rets, Some ?a, ?w1)"
    using run by (simp add: serve_fresh [OF False])
  have cr: "created ?evs = (if reqs = [] then [] else [?a])"
    using False s' by (simp add: created_append)
  have dl: "deleted ?evs = created ?evs"
    using s' by (simp add: created_append deleted_append)
  have "\<forall>b. deref ?w2 b = (if b < length (heap w) then deref w b else None)"
    using live by blast
  with run' fin tr cr dl show ?thesis by blast
qed

text \<open>
  C8. When the slot holds a live state whose controller has the default
  \<^verbatim>\<open>handleComplete\<close>, \<^verbatim>\<open>request_complete_handler\<close> frees that state, once, whatever the
  termination code and whatever the state holds; with an empty slot it does nothing. For a
  connection served by a \<^verbatim>\<open>DynamicController\<close>, whatever activations it received (waiting,
  timed out, aborted or sent), the completion frees exactly the one state the connection
  created, and every address of the store is afterwards as it was before the connection, the
  new one empty.
\<close>

theorem state_destroyed_once:
  "(deref w a = Some cs \<and> handleComplete (obj (conroller cs)) = Controller_handleComplete \<longrightarrow>
      request_complete_handler obj con (Some a) toe w =
        Inr (w\<lparr>heap := (heap w)[a := None], trace := trace w @ [Delete_ConnectionState a]\<rparr>)
      \<and> deref (w\<lparr>heap := (heap w)[a := None], trace := trace w @ [Delete_ConnectionState a]\<rparr>) a = None)
   \<and> request_complete_handler obj con None toe w = Inr w
   \<and> (handleComplete (obj this) = Controller_handleComplete \<longrightarrow>
       (\<exists>rets ptr w1 w2 evs.
          serve (DynamicController_handleRequest cfg this cr) reqs None w = Inr (rets, ptr, w1)
          \<and> request_complete_handler obj con ptr toe w1 = Inr w2
          \<and> trace w2 = trace w @ evs
          \<and> created evs = (if reqs = [] then [] else [length (heap w)])
          \<and> deleted evs = created evs
          \<and> (\<forall>b. deref w2 b = (if b < length (heap w) then deref w b else None))))"
  using complete_default [where w = w and a = a and cs = cs and obj = obj and con = con and toe = toe]
    connection_lifetime [where obj = obj and this = this and cfg = cfg and cr = cr and reqs = reqs
      and w = w and con = con and toe = toe]
  by (simp add: request_complete_handler_def deref_def)

theorem state_destroyed_once_witness:
  "handleComplete (sample_obj 1) = Controller_handleComplete
   \<and> serve (DynamicController_handleRequest DynamicController_defaults 1 MyController_createResponse)
       [request (peer AF_INET [10, 0, 0, 2] MHD_YES) ''/'' ''POST'' None,
        request (peer AF_INET [10, 0, 0, 2] MHD_YES) ''/'' ''POST'' None] None world_init =
     Inr ([1, 1], Some 0,
          \<lparr>heap = [Some ((ConnectionState_init 1)\<lparr>request_waiting_loop_counter := 2\<rparr>)], user = 0,
           trace = [New_ConnectionState 0, Nanosleep \<lparr>tv_sec = 0, tv_nsec = 10000000\<rparr>,
                    Nanosleep \<lparr>tv_sec = 0, tv_nsec = 10000000\<rparr>]\<rparr>)
   \<and> request_complete_handler sample_obj (peer AF_INET [10, 0, 0, 2] MHD_YES) (Some 0)
       MHD_REQUEST_TERMINATED_TIMEOUT_REACHED
       \<lparr>heap = [Some ((ConnectionState_init 1)\<lparr>request_waiting_loop_counter := 2\<rparr>)], user = 0,
        trace = [New_ConnectionState 0, Nanosleep \<lparr>tv_sec = 0, tv_nsec = 10000000\<rparr>,
                 Nanosleep \<lparr>tv_sec = 0, tv_nsec = 10000000\<rparr>]\<rparr> =
     Inr \<lparr>heap = [None], user = 0,
          trace = [New_ConnectionState 0, Nanosleep \<lparr>tv_sec = 0, tv_nsec = 10000000\<rparr>,
                   Nanosleep \<lparr>tv_sec = 0, tv_nsec = 10000000\<rparr>, Delete_ConnectionState 0]\<rparr>
   \<and> request_complete_handler sample_obj (peer AF_INET [10, 0, 0, 2] MHD_YES) None
       MHD_REQUEST_TERMINATED_COMPLETED_OK world_init = Inr world_init"
proof -
  let ?con = "peer AF_INET [10, 0, 0, 2] MHD_YES"
  let ?post = "request ?con ''/'' ''POST'' None"
  let ?cs = "(ConnectionState_init 1)\<lparr>request_waiting_loop_counter := 2\<rparr>"
  let ?w1 = "\<lparr>heap = [Some ?cs], user = 0 :: nat,
           trace = [New_ConnectionState 0, Nanosleep \<lparr>tv_sec = 0, tv_nsec = 10000000\<rparr>,
                    Nanosleep \<lparr>tv_sec = 0, tv_nsec = 10000000\<rparr>]\<rparr>"
  have dflt: "handleComplete (sample_obj 1) = Controller_handleComplete"
    by (simp add: sample_obj_def DynamicController_def)
  have run: "serve (DynamicController_handleRequest DynamicController_defaults 1 MyController_createResponse)
       [?post, ?post] None world_init = Inr ([1, 1], Some 0, ?w1)"
    by (simp add: sample_eval DynamicController_defaults_def)
  have live: "deref ?w1 0 = Some ?cs \<and> handleComplete (sample_obj (conroller ?cs)) = Controller_handleComplete"
    using dflt by (simp add: deref_def ConnectionState_init_def)
  show ?thesis
    using state_destroyed_once [where w = ?w1 and a = 0 and cs = ?cs and obj = sample_obj
        and con = ?con and toe = MHD_REQUEST_TERMINATED_TIMEOUT_REACHED]
      state_destroyed_once [where w = world_init and obj = sample_obj
        and con = ?con and toe = MHD_REQUEST_TERMINATED_COMPLETED_OK]
      live dflt run
    by simp
qed

section \<open>The retry loop of start_daemon\<close>

lemma loop_continue_forever:
  assumes "\<forall>i. fst (attempt (sys i) srv)" "daemon srv = None" "0 \<le> attempts"
  shows "start_daemon_loop fuel sys srv i attempts tr = None"
proof (induction fuel arbitrary: i tr)
  case 0
  show ?case by simp
next
  case (Suc fuel)
  obtain d evs where a: "attempt (sys i) srv = (True, d, evs)"
    using assms(1) by (metis fst_conv prod.exhaust)
  show ?case
    using assms(2,3) by (simp add: a Suc.IH)
qed

lemma attempt_bind_refused:
  "attempt bind_refused (WebServer_init p) =
     (True, None, [Sys_socket 3, Sys_bind 3 INADDR_ANY p, Sys_close 3, Nanosleep (sleepy 5)])"
  by (simp add: attempt_def bind_refused_def WebServer_init_def options_init_def bind_addr_def Let_def)

lemma attempt_socket_refused:
  "attempt socket_refused (WebServer_init p) = (True, None, [Sys_socket (- 1), Nanosleep (sleepy 5)])"
  by (simp add: attempt_def socket_refused_def WebServer_init_def options_init_def bind_addr_def Let_def)

lemma attempt_engine_refused:
  "attempt engine_refused (WebServer_init p) =
     (False, None, [Sys_socket 3, Sys_bind 3 INADDR_ANY p, Sys_listen 3, MHD_start_daemon False 3,
                    Nanosleep (sleepy 5)])"
  by (simp add: attempt_def engine_refused_def WebServer_init_def options_init_def bind_addr_def Let_def)

lemma WebServer_init_daemon: "(WebServer_init p)\<lparr>daemon := None\<rparr> = WebServer_init p"
  by (simp add: WebServer_init_def)

lemma daemon_WebServer_init: "daemon (WebServer_init p) = None"
  by (simp add: WebServer_init_def)

lemma loop_engine_refused:
  "0 \<le> attempts \<Longrightarrow> nat attempts < fuel \<Longrightarrow>
   map_option (\<lambda>(srv, att, n, tr). (srv, att, n))
     (start_daemon_loop (Suc fuel) (\<lambda>i. engine_refused) (WebServer_init p) i attempts tr) =
     Some (WebServer_init p, - 1, i + nat attempts + 1)"
proof (induction fuel arbitrary: i attempts tr)
  case 0
  then show ?case by simp
next
  case (Suc fuel)
  let ?evs = "[Sys_socket 3, Sys_bind 3 INADDR_ANY p, Sys_listen 3, MHD_start_daemon False 3,
               Nanosleep (sleepy 5)]"
  have unfold: "start_daemon_loop (Suc (Suc fuel)) (\<lambda>i. engine_refused) (WebServer_init p) i attempts tr =
      start_daemon_loop (Suc fuel) (\<lambda>i. engine_refused) (WebServer_init p) (Suc i) (attempts - 1)
        (tr @ ?evs)"
    using Suc.prems(1)
    by (subst start_daemon_loop.simps)
      (simp add: attempt_engine_refused WebServer_init_daemon daemon_WebServer_init
        del: start_daemon_loop.simps)
  show ?case
  proof (cases "attempts = 0")
    case True
    have "start_daemon_loop (Suc fuel) (\<lambda>i. engine_refused) (WebServer_init p) (Suc i) (- 1) (tr @ ?evs) =
        Some (WebServer_init p, - 1, Suc i, tr @ ?evs)"
      by simp
    then show ?thesis
      unfolding unfold using True by simp
  next
    case False
    with Suc.prems have "0 \<le> attempts - 1" "nat (attempts - 1) < fuel" by simp_all
    from Suc.IH [OF this, of "Suc i" "tr @ ?evs"] Suc.prems False show ?thesis
      unfolding unfold by (simp add: nat_diff_distrib)
  qed
qed

lemma start_daemon_three_refusals:
  "start_daemon 5 (\<lambda>i. if i < 3 then bind_refused else all_granted) (WebServer_init 8080) [] =
     Some ((WebServer_init 8080)\<lparr>daemon := Some 1\<rparr>, 11, 4,
       [Sys_socket 3, Sys_bind 3 INADDR_ANY 8080, Sys_close 3, Nanosleep (sleepy 5),
        Sys_socket 3, Sys_bind 3 INADDR_ANY 8080, Sys_close 3, Nanosleep (sleepy 5),
        Sys_socket 3, Sys_bind 3 INADDR_ANY 8080, Sys_close 3, Nanosleep (sleepy 5),
        Sys_socket 3, Sys_bind 3 INADDR_ANY 8080, Sys_listen 3, MHD_start_daemon False 3])"
  by (simp add: start_daemon_def stop_daemon_def numeral_eq_Suc attempt_def bind_refused_def
      all_granted_def WebServer_init_def options_init_def bind_addr_def Let_def)

text \<open>
  C7. The loop of \<^verbatim>\<open>start_daemon\<close> does not end when \<^verbatim>\<open>bind\<close> (or \<^verbatim>\<open>socket\<close>) fails
  every time: whatever the fuel, it is still running, because the \<^verbatim>\<open>continue\<close> after a
  failed socket call passes over \<^verbatim>\<open>--attempts\<close>. Only a failure of \<^verbatim>\<open>MHD_start_daemon\<close>
  counts: when the engine never starts, the loop ends after 13 iterations with
  \<^verbatim>\<open>attempts = -1\<close> and no daemon.
\<close>

theorem start_daemon_unbounded_on_bind_failure:
  "start_daemon fuel (\<lambda>i. bind_refused) (WebServer_init p) tr = None
   \<and> start_daemon fuel (\<lambda>i. socket_refused) (WebServer_init p) tr = None
   \<and> map_option (\<lambda>(srv, att, n, tr). (srv, att, n))
        (start_daemon (14 + fuel) (\<lambda>i. engine_refused) (WebServer_init p) tr) =
      Some (WebServer_init p, - 1, 13)"
proof -
  have "start_daemon_loop fuel (\<lambda>i. bind_refused) (WebServer_init p) 0 12 tr = None"
    by (rule loop_continue_forever) (simp_all add: attempt_bind_refused daemon_WebServer_init)
  moreover have "start_daemon_loop fuel (\<lambda>i. socket_refused) (WebServer_init p) 0 12 tr = None"
    by (rule loop_continue_forever) (simp_all add: attempt_socket_refused daemon_WebServer_init)
  moreover have "map_option (\<lambda>(srv, att, n, tr). (srv, att, n))
        (start_daemon_loop (Suc (13 + fuel)) (\<lambda>i. engine_refused) (WebServer_init p) 0 12 tr) =
      Some (WebServer_init p, - 1, 0 + nat 12 + 1)"
    by (rule loop_engine_refused) simp_all
  ultimately show ?thesis
    by (simp add: start_daemon_def stop_daemon_def daemon_WebServer_init del: start_daemon_loop.simps)
qed

section \<open>All the activations of one connection\<close>

lemma serve_Cons_no:
  "h req ptr w = Inr (MHD_NO, p, w1) \<Longrightarrow> serve h (req # reqs) ptr w = Inr ([MHD_NO], p, w1)"
  by simp

lemma serve_Cons_yes:
  "h req ptr w = Inr (r, p, w1) \<Longrightarrow> r \<noteq> MHD_NO \<Longrightarrow> serve h reqs p w1 = Inr (rets, p2, w2) \<Longrightarrow>
   serve h (req # reqs) ptr w = Inr (r # rets, p2, w2)"
  by simp

lemma serve_append_stop:
  "serve h xs ptr w = Inr (rets, p, w') \<Longrightarrow> MHD_NO \<in> set rets \<Longrightarrow>
   serve h (xs @ ys) ptr w = Inr (rets, p, w')"
proof (induction xs arbitrary: ptr w rets)
  case Nil
  then show ?case by simp
next
  case (Cons x xs)
  then show ?case
    by (auto split: sum.splits prod.splits if_splits)
qed

lemma queued_replicate:
  "queued (replicate k (Queue_response c b h)) = replicate k (c, b, h)"
  by (induction k) simp_all

lemma queued_sleeps: "queued (replicate m (Nanosleep t)) = []"
  by (induction m) simp_all

lemma createResponse_calls_replicate:
  "createResponse_calls (replicate k (Queue_response c b h)) = 0"
  by (simp add: createResponse_calls_def)

lemma createResponse_calls_sleeps: "createResponse_calls (replicate m (Nanosleep t)) = 0"
  by (simp add: createResponse_calls_def)

lemma builtI:
  "x = Inr (rets, Some a, w\<lparr>heap := (heap w)[a := Some s'], user := user w,
              trace := trace w @ replicate k (Queue_response MHD_HTTP_OK d h)\<rparr>) \<Longrightarrow>
   response_data s' = d \<Longrightarrow> response_headers s' = h \<Longrightarrow>
   \<exists>rets s' k.
     x = Inr (rets, Some a, w\<lparr>heap := (heap w)[a := Some s'], user := user w,
              trace := trace w @ replicate k (Queue_response MHD_HTTP_OK d h)\<rparr>)
     \<and> response_data s' = d \<and> response_headers s' = h"
  by blast

lemma built_run:
  "deref w a = Some s \<Longrightarrow> response_data s \<noteq> [] \<or> response_sent s \<Longrightarrow>
   \<exists>rets s' k.
     serve (DynamicController_handleRequest cfg this cr) reqs (Some a) w =
       Inr (rets, Some a, w\<lparr>heap := (heap w)[a := Some s'], user := user w,
              trace := trace w @ replicate k
                (Queue_response MHD_HTTP_OK (response_data s) (response_headers s))\<rparr>)
     \<and> response_data s' = response_data s \<and> response_headers s' = response_headers s"
proof (induction reqs arbitrary: w s)
  case Nil
  have "serve (DynamicController_handleRequest cfg this cr) [] (Some a) w =
     Inr ([], Some a, w\<lparr>heap := (heap w)[a := Some s], user := user w,
            trace := trace w @ replicate 0
                (Queue_response MHD_HTTP_OK (response_data s) (response_headers s))\<rparr>)"
    using heap_same [OF Nil(1)] by simp
  then show ?case by (rule builtI) simp_all
next
  case (Cons req reqs)
  let ?h = "DynamicController_handleRequest cfg this cr"
  let ?Q = "Queue_response MHD_HTTP_OK (response_data s) (response_headers s)"
  show ?case
  proof (cases "response_sent s")
    case True
    from Cons.IH [OF Cons.prems]
    obtain rets s' k where
      run: "serve ?h reqs (Some a) w =
         Inr (rets, Some a, w\<lparr>heap := (heap w)[a := Some s'], user := user w,
                trace := trace w @ replicate k ?Q\<rparr>)"
      and s': "response_data s' = response_data s" "response_headers s' = response_headers s"
      by blast
    have "serve ?h (req # reqs) (Some a) w =
         Inr (MHD_YES # rets, Some a, w\<lparr>heap := (heap w)[a := Some s'], user := user w,
                trace := trace w @ replicate k ?Q\<rparr>)"
      by (rule serve_Cons_yes [OF step_sent [OF Cons.prems(1) True] _ run]) simp
    then show ?thesis by (rule builtI) (simp_all add: s')
  next
    case False
    with Cons.prems(2) have data: "response_data s \<noteq> []" by simp
    let ?s1 = "if queue_response_ret (connection req) = MHD_YES
               then s\<lparr>response_sent := True\<rparr> else s"
    let ?w1 = "w\<lparr>heap := (heap w)[a := Some ?s1], trace := trace w @ [?Q]\<rparr>"
    have step: "?h req (Some a) w = Inr (MHD_YES, Some a, ?w1)"
      by (rule step_cached [OF Cons.prems(1) False data])
    from Cons.prems(1) have "a < length (heap w)"
      by (auto simp: deref_def split: if_splits)
    then have d1: "deref ?w1 a = Some ?s1"
      by (simp add: deref_def)
    have ne: "response_data ?s1 \<noteq> [] \<or> response_sent ?s1"
      using data by simp
    from Cons.IH [OF d1 ne]
    obtain rets s' k where
      run: "serve ?h reqs (Some a) ?w1 =
         Inr (rets, Some a, ?w1\<lparr>heap := (heap ?w1)[a := Some s'], user := user ?w1,
                trace := trace ?w1 @ replicate k
                  (Queue_response MHD_HTTP_OK (response_data ?s1) (response_headers ?s1))\<rparr>)"
      and s': "response_data s' = response_data ?s1" "response_headers s' = response_headers ?s1"
      by blast
    have "serve ?h (req # reqs) (Some a) w =
         Inr (MHD_YES # rets, Some a, ?w1\<lparr>heap := (heap ?w1)[a := Some s'], user := user ?w1,
                trace := trace ?w1 @ replicate k
                  (Queue_response MHD_HTTP_OK (response_data ?s1) (response_headers ?s1))\<rparr>)"
      by (rule serve_Cons_yes [OF step _ run]) simp
    then have tot: "serve ?h (req # reqs) (Some a) w =
         Inr (MHD_YES # rets, Some a, w\<lparr>heap := (heap w)[a := Some s'], user := user w,
                trace := trace w @ replicate (Suc k) ?Q\<rparr>)"
      by (simp del: serve.simps split: if_splits)
    have e: "response_data s' = response_data s" "response_headers s' = response_headers s"
      using s' by (simp_all split: if_splits)
    show ?thesis
      by (rule builtI [OF tot e])
  qed
qed

lemma waitsI:
  "x = Inr (rets, Some a, w\<lparr>heap := (heap w)[a := Some (s\<lparr>request_waiting_loop_counter := c\<rparr>)],
              user := user w, trace := trace w @ replicate m (Nanosleep t)\<rparr>) \<Longrightarrow>
   (P \<longrightarrow> MHD_NO \<notin> set rets) \<Longrightarrow>
   \<exists>rets c m.
     x = Inr (rets, Some a, w\<lparr>heap := (heap w)[a := Some (s\<lparr>request_waiting_loop_counter := c\<rparr>)],
              user := user w, trace := trace w @ replicate m (Nanosleep t)\<rparr>)
     \<and> (P \<longrightarrow> MHD_NO \<notin> set rets)"
  by blast

lemma waits_run:
  "\<forall>x \<in> set ws. meth x = ''POST'' \<and> upload_data x = None \<Longrightarrow>
   deref w a = Some s \<Longrightarrow> \<not> response_sent s \<Longrightarrow> response_data s = [] \<Longrightarrow>
   \<exists>rets c m.
     serve (DynamicController_handleRequest cfg this cr) ws (Some a) w =
       Inr (rets, Some a,
            w\<lparr>heap := (heap w)[a := Some (s\<lparr>request_waiting_loop_counter := c\<rparr>)],
              user := user w, trace := trace w @ replicate m (Nanosleep (waiting_usec_sleep cfg))\<rparr>)
     \<and> (unat (request_waiting_loop_counter s) + length ws \<le> unat (waiting_loops cfg)
          \<longrightarrow> MHD_NO \<notin> set rets)"
proof (induction ws arbitrary: w s)
  case Nil
  have "serve (DynamicController_handleRequest cfg this cr) [] (Some a) w =
     Inr ([], Some a,
          w\<lparr>heap := (heap w)[a := Some (s\<lparr>request_waiting_loop_counter := request_waiting_loop_counter s\<rparr>)],
            user := user w, trace := trace w @ replicate 0 (Nanosleep (waiting_usec_sleep cfg))\<rparr>)"
    using heap_same [OF Nil(2)] by simp
  then show ?case by (rule waitsI) simp
next
  case (Cons x ws)
  let ?h = "DynamicController_handleRequest cfg this cr"
  let ?c = "request_waiting_loop_counter s"
  let ?s1 = "s\<lparr>request_waiting_loop_counter := ?c + 1\<rparr>"
  let ?t = "Nanosleep (waiting_usec_sleep cfg)"
  from Cons.prems(1) have post: "meth x = ''POST''" "upload_data x = None"
    and rest: "\<forall>x \<in> set ws. meth x = ''POST'' \<and> upload_data x = None"
    by simp_all
  from Cons.prems(2) have inb: "a < length (heap w)"
    by (auto simp: deref_def split: if_splits)
  note step = step_wait [OF Cons.prems(2-4) post, of cfg this cr]
  have small: "\<not> waiting_loops cfg < ?c + 1 \<and> unat (?c + 1) = Suc (unat ?c)"
    if "unat ?c + length (x # ws) \<le> unat (waiting_loops cfg)"
  proof -
    from that have "?c < waiting_loops cfg" by (simp add: word_less_nat_alt)
    then have "unat (?c + 1) = Suc (unat ?c)" by (rule word_succ)
    with that show ?thesis by (simp add: word_less_nat_alt)
  qed
  show ?case
  proof (cases "?c + 1 > waiting_loops cfg")
    case True
    then have "?h x (Some a) w = Inr (MHD_NO, Some a, store a ?s1 w)"
      using step by simp
    then have "serve ?h (x # ws) (Some a) w = Inr ([MHD_NO], Some a, store a ?s1 w)"
      by (rule serve_Cons_no)
    then have tot: "serve ?h (x # ws) (Some a) w =
       Inr ([MHD_NO], Some a,
            w\<lparr>heap := (heap w)[a := Some (s\<lparr>request_waiting_loop_counter := ?c + 1\<rparr>)],
              user := user w, trace := trace w @ replicate 0 ?t\<rparr>)"
      by (simp add: store_def del: serve.simps)
    have "unat ?c + length (x # ws) \<le> unat (waiting_loops cfg) \<longrightarrow> MHD_NO \<notin> set [MHD_NO]"
      using small True by blast
    then show ?thesis
      by (rule waitsI [OF tot])
  next
    case False
    let ?w1 = "emit ?t (store a ?s1 w)"
    have st: "?h x (Some a) w = Inr (MHD_YES, Some a, ?w1)"
      using step False by simp
    have d1: "deref ?w1 a = Some ?s1"
      using inb by (simp add: deref_def emit_def store_def)
    have p1: "\<not> response_sent ?s1" "response_data ?s1 = []"
      using Cons.prems(3,4) by simp_all
    from Cons.IH [OF rest d1 p1]
    obtain rets c m where
      run: "serve ?h ws (Some a) ?w1 =
         Inr (rets, Some a,
              ?w1\<lparr>heap := (heap ?w1)[a := Some (?s1\<lparr>request_waiting_loop_counter := c\<rparr>)],
                 user := user ?w1, trace := trace ?w1 @ replicate m ?t\<rparr>)"
      and ok: "unat (request_waiting_loop_counter ?s1) + length ws \<le> unat (waiting_loops cfg)
                 \<longrightarrow> MHD_NO \<notin> set rets"
      by blast
    have "serve ?h (x # ws) (Some a) w =
         Inr (MHD_YES # rets, Some a,
              ?w1\<lparr>heap := (heap ?w1)[a := Some (?s1\<lparr>request_waiting_loop_counter := c\<rparr>)],
                 user := user ?w1, trace := trace ?w1 @ replicate m ?t\<rparr>)"
      by (rule serve_Cons_yes [OF st _ run]) simp
    then have tot: "serve ?h (x # ws) (Some a) w =
         Inr (MHD_YES # rets, Some a,
              w\<lparr>heap := (heap w)[a := Some (s\<lparr>request_waiting_loop_counter := c\<rparr>)],
                user := user w, trace := trace w @ replicate (Suc m) ?t\<rparr>)"
      by (simp add: emit_def store_def del: serve.simps)
    have "unat ?c + length (x # ws) \<le> unat (waiting_loops cfg) \<longrightarrow> MHD_NO \<notin> set (MHD_YES # rets)"
      using small ok by auto
    then show ?thesis
      by (rule waitsI [OF tot])
  qed
qed


lemma build_first_run:
  assumes "deref w a = Some s" "\<not> response_sent s" "response_data s = []"
    and "\<not> (meth req = ''POST'' \<and> upload_data req = None)"
    and "cr req (user w) = ((rp, body0), u')"
    and "body0 \<noteq> [] \<or> queue_response_ret (connection req) = MHD_YES
           \<or> uint (response_code rp) = MHD_NO"
  shows "\<exists>rets s' k.
     serve (DynamicController_handleRequest cfg this cr) (req # rest) (Some a) w =
       Inr (rets, Some a,
            w\<lparr>heap := (heap w)[a := Some s'], user := u',
              trace := trace w @ Call_createResponse
                         # replicate k (Queue_response MHD_HTTP_OK body0 (headers rp))\<rparr>)
     \<and> (0 < k \<longrightarrow> response_data s' = body0 \<and> response_headers s' = headers rp)
     \<and> (uint (response_code rp) \<noteq> MHD_NO \<longrightarrow> 0 < k)"
proof (cases "uint (response_code rp) = MHD_NO")
  case True
  let ?h = "DynamicController_handleRequest cfg this cr"
  have "?h req (Some a) w =
     Inr (MHD_NO, Some a, w\<lparr>user := u', trace := trace w @ [Call_createResponse]\<rparr>)"
    by (rule step_abort [where cr = cr and req = req and w = w and rp = rp and body = body0
          and u' = u', OF assms(1-5) True])
  then have "serve ?h (req # rest) (Some a) w =
     Inr ([MHD_NO], Some a, w\<lparr>user := u', trace := trace w @ [Call_createResponse]\<rparr>)"
    by (rule serve_Cons_no)
  then have "serve ?h (req # rest) (Some a) w =
     Inr ([MHD_NO], Some a,
          w\<lparr>heap := (heap w)[a := Some s], user := u',
            trace := trace w @ Call_createResponse
                       # replicate 0 (Queue_response MHD_HTTP_OK body0 (headers rp))\<rparr>)"
    using heap_same [OF assms(1)] by (simp del: serve.simps)
  with True show ?thesis by blast
next
  case code: False
  let ?h = "DynamicController_handleRequest cfg this cr"
  let ?s1 = "if queue_response_ret (connection req) = MHD_YES
             then s\<lparr>response_data := body0, response_headers := headers rp, response_sent := True\<rparr>
             else s\<lparr>response_data := body0, response_headers := headers rp\<rparr>"
  let ?Q = "Queue_response MHD_HTTP_OK body0 (headers rp)"
  let ?w1 = "w\<lparr>heap := (heap w)[a := Some ?s1], user := u',
               trace := trace w @ [Call_createResponse, ?Q]\<rparr>"
  from assms(1) have inb: "a < length (heap w)"
    by (auto simp: deref_def split: if_splits)
  have st: "?h req (Some a) w = Inr (MHD_YES, Some a, ?w1)"
    by (rule step_build [where cr = cr and req = req and w = w and rp = rp and body = body0
          and u' = u', OF assms(1-5) code])
  have d1: "deref ?w1 a = Some ?s1"
    using inb by (simp add: deref_def)
  have e1: "response_data ?s1 = body0" "response_headers ?s1 = headers rp"
    by simp_all
  have b1: "response_data ?s1 \<noteq> [] \<or> response_sent ?s1"
    using assms(6) code by auto
  from built_run [OF d1 b1, where cfg = cfg and this = this and cr = cr and reqs = rest]
  obtain rets s' k where
    run: "serve ?h rest (Some a) ?w1 =
       Inr (rets, Some a, ?w1\<lparr>heap := (heap ?w1)[a := Some s'], user := user ?w1,
              trace := trace ?w1 @ replicate k ?Q\<rparr>)"
    and s': "response_data s' = body0" "response_headers s' = headers rp"
    unfolding e1 by blast
  have "serve ?h (req # rest) (Some a) w =
       Inr (MHD_YES # rets, Some a, ?w1\<lparr>heap := (heap ?w1)[a := Some s'], user := user ?w1,
              trace := trace ?w1 @ replicate k ?Q\<rparr>)"
    by (rule serve_Cons_yes [OF st _ run]) simp
  then have "serve ?h (req # rest) (Some a) w =
       Inr (MHD_YES # rets, Some a, w\<lparr>heap := (heap w)[a := Some s'], user := u',
              trace := trace w @ Call_createResponse # replicate (Suc k) ?Q\<rparr>)"
    by (simp del: serve.simps)
  moreover have "0 < Suc k" by simp
  ultimately show ?thesis
    using s' by blast
qed

lemma fresh_build_run:
  assumes "\<forall>x \<in> set waits. meth x = ''POST'' \<and> upload_data x = None"
    and "\<not> (meth req = ''POST'' \<and> upload_data req = None)"
    and "cr req (user w) = ((rp, body0), u')"
    and "body0 \<noteq> [] \<or> queue_response_ret (connection req) = MHD_YES
           \<or> uint (response_code rp) = MHD_NO"
  shows "\<exists>rets ptr w' evs k.
     serve (DynamicController_handleRequest cfg this cr) (waits @ req # rest) None w
       = Inr (rets, ptr, w')
     \<and> trace w' = trace w @ evs
     \<and> createResponse_calls evs \<le> 1
     \<and> queued evs = replicate k (MHD_HTTP_OK, body0, headers rp)
     \<and> (0 < k \<longrightarrow> (\<exists>s'. deref w' (length (heap w)) = Some s'
                        \<and> response_data s' = body0 \<and> response_headers s' = headers rp))
     \<and> (length waits \<le> unat (waiting_loops cfg) \<and> uint (response_code rp) \<noteq> MHD_NO \<longrightarrow>
          createResponse_calls evs = 1 \<and> 0 < k \<and> user w' = u')"
proof -
  let ?h = "DynamicController_handleRequest cfg this cr"
  let ?a = "length (heap w)"
  let ?w0 = "snd (create_state this w)"
  let ?i = "ConnectionState_init this"
  let ?t = "Nanosleep (waiting_usec_sleep cfg)"
  let ?Q = "Queue_response MHD_HTTP_OK body0 (headers rp)"
  have fresh: "serve ?h (waits @ req # rest) None w = serve ?h (waits @ req # rest) (Some ?a) ?w0"
    by (rule serve_fresh) simp
  have i: "\<not> response_sent ?i" "response_data ?i = []" "request_waiting_loop_counter ?i = 0"
    by (simp_all add: ConnectionState_init_def)
  from waits_run [where w = ?w0 and a = ?a and s = ?i and cfg = cfg and this = this and cr = cr,
      OF assms(1) deref_create_state i(1,2)]
  obtain rets1 c m where
    run1: "serve ?h waits (Some ?a) ?w0 =
       Inr (rets1, Some ?a,
            ?w0\<lparr>heap := (heap ?w0)[?a := Some (?i\<lparr>request_waiting_loop_counter := c\<rparr>)],
               user := user ?w0, trace := trace ?w0 @ replicate m ?t\<rparr>)"
    and ok1: "unat (request_waiting_loop_counter ?i) + length waits \<le> unat (waiting_loops cfg)
               \<longrightarrow> MHD_NO \<notin> set rets1"
    by blast
  let ?s1 = "?i\<lparr>request_waiting_loop_counter := c\<rparr>"
  let ?w1 = "?w0\<lparr>heap := (heap ?w0)[?a := Some ?s1], user := user ?w0,
                 trace := trace ?w0 @ replicate m ?t\<rparr>"
  have t1: "trace ?w1 = trace w @ (New_ConnectionState ?a # replicate m ?t)"
    by (simp add: create_state_def emit_def Let_def)
  show ?thesis
  proof (cases "MHD_NO \<in> set rets1")
    case True
    have r: "serve ?h (waits @ req # rest) None w = Inr (rets1, Some ?a, ?w1)"
      unfolding fresh by (rule serve_append_stop [OF run1 True])
    have c0: "createResponse_calls (New_ConnectionState ?a # replicate m ?t) \<le> 1"
      by (simp add: createResponse_calls_def)
    have q0: "queued (New_ConnectionState ?a # replicate m ?t)
                = replicate 0 (MHD_HTTP_OK, body0, headers rp)"
      by (simp add: queued_sleeps)
    have long: "\<not> length waits \<le> unat (waiting_loops cfg)"
      using ok1 True i(3) by auto
    from r t1 c0 q0 long show ?thesis by blast
  next
    case False
    have d1: "deref ?w1 ?a = Some ?s1"
      by (simp add: deref_def create_state_def emit_def Let_def)
    have p1: "\<not> response_sent ?s1" "response_data ?s1 = []"
      using i by simp_all
    have cr1: "cr req (user ?w1) = ((rp, body0), u')"
      using assms(3) by (simp add: create_state_def emit_def Let_def)
    from build_first_run [where w = ?w1 and a = ?a and s = ?s1 and cr = cr and req = req
        and rp = rp and ?body0.0 = body0 and u' = u' and cfg = cfg and this = this and rest = rest,
        OF d1 p1 assms(2) cr1 assms(4)]
    obtain rets2 s' k where
      run2: "serve ?h (req # rest) (Some ?a) ?w1 =
         Inr (rets2, Some ?a,
              ?w1\<lparr>heap := (heap ?w1)[?a := Some s'], user := u',
                 trace := trace ?w1 @ Call_createResponse # replicate k ?Q\<rparr>)"
      and inv: "0 < k \<longrightarrow> response_data s' = body0 \<and> response_headers s' = headers rp"
        "uint (response_code rp) \<noteq> MHD_NO \<longrightarrow> 0 < k"
      by blast
    let ?w2 = "?w1\<lparr>heap := (heap ?w1)[?a := Some s'], user := u',
                 trace := trace ?w1 @ Call_createResponse # replicate k ?Q\<rparr>"
    let ?evs = "New_ConnectionState ?a # replicate m ?t @ Call_createResponse # replicate k ?Q"
    have r: "serve ?h (waits @ req # rest) None w = Inr (rets1 @ rets2, Some ?a, ?w2)"
      unfolding fresh using serve_append [OF run1 False, of "req # rest"] run2
      by (simp del: serve.simps)
    have t2: "trace ?w2 = trace w @ ?evs"
      by (simp add: create_state_def emit_def Let_def)
    have c2: "createResponse_calls ?evs = 1"
      by (simp add: createResponse_calls_def)
    have q2: "queued ?evs = replicate k (MHD_HTTP_OK, body0, headers rp)"
      by (simp add: queued_append queued_sleeps queued_replicate)
    have d2: "deref ?w2 ?a = Some s'"
      by (simp add: deref_def create_state_def emit_def Let_def)
    have u2: "user ?w2 = u'"
      by simp
    have cached: "0 < k \<longrightarrow> (\<exists>s'. deref ?w2 ?a = Some s'
                        \<and> response_data s' = body0 \<and> response_headers s' = headers rp)"
      using d2 inv(1) by blast
    have once: "length waits \<le> unat (waiting_loops cfg) \<and> uint (response_code rp) \<noteq> MHD_NO \<longrightarrow>
          createResponse_calls ?evs = 1 \<and> 0 < k \<and> user ?w2 = u'"
      using c2 inv(2) u2 by blast
    have le: "createResponse_calls ?evs \<le> 1"
      using c2 by simp
    from r t2 le q2 cached once show ?thesis by blast
  qed
qed

lemma fresh_waiting_run:
  assumes "\<forall>x \<in> set reqs. meth x = ''POST'' \<and> upload_data x = None"
  shows "\<exists>rets ptr w' evs.
     serve (DynamicController_handleRequest cfg this cr) reqs None w = Inr (rets, ptr, w')
     \<and> trace w' = trace w @ evs \<and> createResponse_calls evs = 0 \<and> queued evs = []
     \<and> user w' = user w"
proof (cases "reqs = []")
  case True
  have "serve (DynamicController_handleRequest cfg this cr) reqs None w = Inr ([], None, w)"
    "trace w = trace w @ []" "createResponse_calls [] = 0" "queued [] = []"
    using True by (simp_all add: createResponse_calls_def)
  then show ?thesis by blast
next
  case False
  let ?h = "DynamicController_handleRequest cfg this cr"
  let ?a = "length (heap w)"
  let ?w0 = "snd (create_state this w)"
  let ?i = "ConnectionState_init this"
  let ?t = "Nanosleep (waiting_usec_sleep cfg)"
  have i: "\<not> response_sent ?i" "response_data ?i = []"
    by (simp_all add: ConnectionState_init_def)
  from waits_run [where w = ?w0 and a = ?a and s = ?i and cfg = cfg and this = this and cr = cr,
      OF assms deref_create_state i]
  obtain rets c m where
    run: "serve ?h reqs (Some ?a) ?w0 =
       Inr (rets, Some ?a,
            ?w0\<lparr>heap := (heap ?w0)[?a := Some (?i\<lparr>request_waiting_loop_counter := c\<rparr>)],
               user := user ?w0, trace := trace ?w0 @ replicate m ?t\<rparr>)"
    by blast
  let ?w1 = "?w0\<lparr>heap := (heap ?w0)[?a := Some (?i\<lparr>request_waiting_loop_counter := c\<rparr>)],
               user := user ?w0, trace := trace ?w0 @ replicate m ?t\<rparr>"
  have r: "serve ?h reqs None w = Inr (rets, Some ?a, ?w1)"
    using run by (simp add: serve_fresh [OF False])
  have t: "trace ?w1 = trace w @ (New_ConnectionState ?a # replicate m ?t)"
    by (simp add: create_state_def emit_def Let_def)
  have c: "createResponse_calls (New_ConnectionState ?a # replicate m ?t) = 0"
    by (simp add: createResponse_calls_def)
  have q: "queued (New_ConnectionState ?a # replicate m ?t) = []"
    by (simp add: queued_sleeps)
  have u: "user ?w1 = user w"
    by (simp add: create_state_def emit_def Let_def)
  from r t c q u show ?thesis by blast
qed

lemma fresh_build_step:
  assumes "\<not> (meth req = ''POST'' \<and> upload_data req = None)"
    and "cr req (user w) = ((rp, body0), u')" and "uint (response_code rp) \<noteq> MHD_NO"
  shows "DynamicController_handleRequest cfg this cr req None w =
     Inr (MHD_YES, Some (length (heap w)),
       w\<lparr>heap := heap w @ [Some
                    (if queue_response_ret (connection req) = MHD_YES
                     then (ConnectionState_init this)
                            \<lparr>response_data := body0, response_headers := headers rp,
                             response_sent := True\<rparr>
                     else (ConnectionState_init this)
                            \<lparr>response_data := body0, response_headers := headers rp\<rparr>)],
         user := u',
         trace := trace w @ [New_ConnectionState (length (heap w)), Call_createResponse,
                             Queue_response MHD_HTTP_OK body0 (headers rp)]\<rparr>)"
proof -
  let ?w0 = "snd (create_state this w)"
  let ?i = "ConnectionState_init this"
  have i: "\<not> response_sent ?i" "response_data ?i = []"
    by (simp_all add: ConnectionState_init_def)
  have cr0: "cr req (user ?w0) = ((rp, body0), u')"
    using assms(2) by (simp add: create_state_def emit_def Let_def)
  show ?thesis
    unfolding handleRequest_fresh
    by (subst step_build [where cr = cr and req = req and w = ?w0 and rp = rp and body = body0
          and u' = u', OF deref_create_state i assms(1) cr0 assms(3)])
      (simp add: create_state_def emit_def Let_def)
qed


text \<open>
  C2, as amended. Take the activations of a connection up to and including the first one that
  does not wait for upload data (the activations before it are POSTs without data), and let
  \<^verbatim>\<open>createResponse\<close> answer that one with the parameters \<open>rp\<close> and the body \<open>body0\<close>.
  \<^item> If the code is not \<^verbatim>\<open>MHD_NO\<close>, that activation stores the body and the headers in the
    state and queues them with status 200, on a state it has just created as on an existing one.
  \<^item> Unless the body is empty and the transport refused to queue it, over all the activations
    of the connection (which end with the first \<^verbatim>\<open>MHD_NO\<close>) \<^verbatim>\<open>createResponse\<close> is called at
    most once, whatever it would answer on further calls; every response queued is this body
    with these headers, which stay cached in the state; and when the wait did not time out and
    the code is not \<^verbatim>\<open>MHD_NO\<close>, it is called exactly once and something is queued.
  \<^item> A connection whose activations all wait never calls \<^verbatim>\<open>createResponse\<close>.
  \<^item> With a body cached and \<^verbatim>\<open>response_sent\<close> false, an activation queues the cached body
    and headers again and builds nothing; with \<^verbatim>\<open>response_sent\<close> true it does nothing.
\<close>

theorem createResponse_called_once:
  assumes "\<not> (meth req = ''POST'' \<and> upload_data req = None)"
    and "cr req (user w) = ((rp, body0), u')"
  shows "((\<forall>x \<in> set waits. meth x = ''POST'' \<and> upload_data x = None)
            \<and> (body0 \<noteq> [] \<or> queue_response_ret (connection req) = MHD_YES
                 \<or> uint (response_code rp) = MHD_NO) \<longrightarrow>
          (\<exists>rets ptr w' evs k.
             serve (DynamicController_handleRequest cfg this cr) (waits @ req # rest) None w
               = Inr (rets, ptr, w')
             \<and> trace w' = trace w @ evs
             \<and> createResponse_calls evs \<le> 1
             \<and> queued evs = replicate k (MHD_HTTP_OK, body0, headers rp)
             \<and> (0 < k \<longrightarrow> (\<exists>s'. deref w' (length (heap w)) = Some s'
                                \<and> response_data s' = body0 \<and> response_headers s' = headers rp))
             \<and> (length waits \<le> unat (waiting_loops cfg) \<and> uint (response_code rp) \<noteq> MHD_NO \<longrightarrow>
                  createResponse_calls evs = 1 \<and> 0 < k \<and> user w' = u')))
       \<and> (uint (response_code rp) \<noteq> MHD_NO \<longrightarrow>
          DynamicController_handleRequest cfg this cr req None w =
            Inr (MHD_YES, Some (length (heap w)),
              w\<lparr>heap := heap w @ [Some
                           (if queue_response_ret (connection req) = MHD_YES
                            then (ConnectionState_init this)
                                   \<lparr>response_data := body0, response_headers := headers rp,
                                    response_sent := True\<rparr>
                            else (ConnectionState_init this)
                                   \<lparr>response_data := body0, response_headers := headers rp\<rparr>)],
                user := u',
                trace := trace w @ [New_ConnectionState (length (heap w)), Call_createResponse,
                                    Queue_response MHD_HTTP_OK body0 (headers rp)]\<rparr>))
       \<and> (deref w a = Some s \<and> \<not> response_sent s \<and> response_data s = []
            \<and> uint (response_code rp) \<noteq> MHD_NO \<longrightarrow>
          DynamicController_handleRequest cfg this cr req (Some a) w =
            Inr (MHD_YES, Some a,
              w\<lparr>heap := (heap w)[a := Some
                           (if queue_response_ret (connection req) = MHD_YES
                            then s\<lparr>response_data := body0, response_headers := headers rp,
                                   response_sent := True\<rparr>
                            else s\<lparr>response_data := body0, response_headers := headers rp\<rparr>)],
                user := u',
                trace := trace w @ [Call_createResponse,
                                    Queue_response MHD_HTTP_OK body0 (headers rp)]\<rparr>))
       \<and> ((\<forall>x \<in> set reqs. meth x = ''POST'' \<and> upload_data x = None) \<longrightarrow>
          (\<exists>rets ptr w' evs.
             serve (DynamicController_handleRequest cfg this cr) reqs None w = Inr (rets, ptr, w')
             \<and> trace w' = trace w @ evs \<and> createResponse_calls evs = 0 \<and> queued evs = []
             \<and> user w' = user w))
       \<and> (deref v b = Some t \<and> \<not> response_sent t \<and> response_data t \<noteq> [] \<longrightarrow>
          DynamicController_handleRequest cfg this cr rq (Some b) v =
            Inr (MHD_YES, Some b,
              v\<lparr>heap := (heap v)[b := Some
                           (if queue_response_ret (connection rq) = MHD_YES
                            then t\<lparr>response_sent := True\<rparr> else t)],
                trace := trace v @ [Queue_response MHD_HTTP_OK (response_data t)
                                      (response_headers t)]\<rparr>))
       \<and> (deref v b = Some t \<and> response_sent t \<longrightarrow>
          DynamicController_handleRequest cfg this cr rq (Some b) v = Inr (MHD_YES, Some b, v))"
proof (intro conjI impI)
  assume "(\<forall>x \<in> set waits. meth x = ''POST'' \<and> upload_data x = None)
            \<and> (body0 \<noteq> [] \<or> queue_response_ret (connection req) = MHD_YES
                 \<or> uint (response_code rp) = MHD_NO)"
  then have h: "\<forall>x \<in> set waits. meth x = ''POST'' \<and> upload_data x = None"
    "body0 \<noteq> [] \<or> queue_response_ret (connection req) = MHD_YES
       \<or> uint (response_code rp) = MHD_NO"
    by simp_all
  show "\<exists>rets ptr w' evs k.
             serve (DynamicController_handleRequest cfg this cr) (waits @ req # rest) None w
               = Inr (rets, ptr, w')
             \<and> trace w' = trace w @ evs
             \<and> createResponse_calls evs \<le> 1
             \<and> queued evs = replicate k (MHD_HTTP_OK, body0, headers rp)
             \<and> (0 < k \<longrightarrow> (\<exists>s'. deref w' (length (heap w)) = Some s'
                                \<and> response_data s' = body0 \<and> response_headers s' = headers rp))
             \<and> (length waits \<le> unat (waiting_loops cfg) \<and> uint (response_code rp) \<noteq> MHD_NO \<longrightarrow>
                  createResponse_calls evs = 1 \<and> 0 < k \<and> user w' = u')"
    by (rule fresh_build_run [where cr = cr and req = req and w = w and rp = rp
          and ?body0.0 = body0 and u' = u', OF h(1) assms h(2)])
next
  assume "uint (response_code rp) \<noteq> MHD_NO"
  then show "DynamicController_handleRequest cfg this cr req None w =
            Inr (MHD_YES, Some (length (heap w)),
              w\<lparr>heap := heap w @ [Some
                           (if queue_response_ret (connection req) = MHD_YES
                            then (ConnectionState_init this)
                                   \<lparr>response_data := body0, response_headers := headers rp,
                                    response_sent := True\<rparr>
                            else (ConnectionState_init this)
                                   \<lparr>response_data := body0, response_headers := headers rp\<rparr>)],
                user := u',
                trace := trace w @ [New_ConnectionState (length (heap w)), Call_createResponse,
                                    Queue_response MHD_HTTP_OK body0 (headers rp)]\<rparr>)"
    by (rule fresh_build_step [where cr = cr and req = req and w = w and rp = rp
          and ?body0.0 = body0 and u' = u', OF assms])
next
  assume "deref w a = Some s \<and> \<not> response_sent s \<and> response_data s = []
            \<and> uint (response_code rp) \<noteq> MHD_NO"
  then have h: "deref w a = Some s" "\<not> response_sent s" "response_data s = []"
    "uint (response_code rp) \<noteq> MHD_NO"
    by simp_all
  show "DynamicController_handleRequest cfg this cr req (Some a) w =
            Inr (MHD_YES, Some a,
              w\<lparr>heap := (heap w)[a := Some
                           (if queue_response_ret (connection req) = MHD_YES
                            then s\<lparr>response_data := body0, response_headers := headers rp,
                                   response_sent := True\<rparr>
                            else s\<lparr>response_data := body0, response_headers := headers rp\<rparr>)],
                user := u',
                trace := trace w @ [Call_createResponse,
                                    Queue_response MHD_HTTP_OK body0 (headers rp)]\<rparr>)"
    by (rule step_build [where cr = cr and req = req and w = w and rp = rp and body = body0
          and u' = u', OF h(1-3) assms h(4)])
next
  assume "\<forall>x \<in> set reqs. meth x = ''POST'' \<and> upload_data x = None"
  then show "\<exists>rets ptr w' evs.
             serve (DynamicController_handleRequest cfg this cr) reqs None w = Inr (rets, ptr, w')
             \<and> trace w' = trace w @ evs \<and> createResponse_calls evs = 0 \<and> queued evs = []
             \<and> user w' = user w"
    by (rule fresh_waiting_run)
next
  assume "deref v b = Some t \<and> \<not> response_sent t \<and> response_data t \<noteq> []"
  then have h: "deref v b = Some t" "\<not> response_sent t" "response_data t \<noteq> []"
    by simp_all
  show "DynamicController_handleRequest cfg this cr rq (Some b) v =
            Inr (MHD_YES, Some b,
              v\<lparr>heap := (heap v)[b := Some
                           (if queue_response_ret (connection rq) = MHD_YES
                            then t\<lparr>response_sent := True\<rparr> else t)],
                trace := trace v @ [Queue_response MHD_HTTP_OK (response_data t)
                                      (response_headers t)]\<rparr>)"
    by (rule step_cached [OF h])
next
  assume "deref v b = Some t \<and> response_sent t"
  then have h: "deref v b = Some t" "response_sent t"
    by simp_all
  show "DynamicController_handleRequest cfg this cr rq (Some b) v = Inr (MHD_YES, Some b, v)"
    by (rule step_sent [OF h])
qed

theorem createResponse_called_twice_counterexample:
  "serve (DynamicController_handleRequest DynamicController_defaults 7 silent_createResponse)
      [request (peer AF_INET [10, 0, 0, 2] MHD_NO) ''/'' ''GET'' None,
       request (peer AF_INET [10, 0, 0, 2] MHD_YES) ''/'' ''GET'' None,
       request (peer AF_INET [10, 0, 0, 2] MHD_YES) ''/'' ''GET'' None] None world_init =
     Inr ([1, 1, 1], Some 0,
          \<lparr>heap = [Some ((ConnectionState_init 7)\<lparr>response_sent := True\<rparr>)], user = 2,
           trace = [New_ConnectionState 0,
                    Call_createResponse, Queue_response 200 [] [],
                    Call_createResponse, Queue_response 200 [] []]\<rparr>)
   \<and> createResponse_calls [New_ConnectionState 0,
                    Call_createResponse, Queue_response 200 [] [],
                    Call_createResponse, Queue_response 200 [] []] = 2
   \<and> serve (DynamicController_handleRequest DynamicController_defaults 7 MyController_createResponse)
      [request (peer AF_INET [10, 0, 0, 2] MHD_YES) ''/'' ''GET'' None,
       request (peer AF_INET [10, 0, 0, 2] MHD_YES) ''/'' ''GET'' None] None world_init =
     Inr ([1, 1], Some 0,
          \<lparr>heap = [Some ((ConnectionState_init 7)
                     \<lparr>response_sent := True, response_headers := [(''Content-Type'', ''text/html'')],
                      response_data := ''Hello World at ''\<rparr>)],
           user = 1,
           trace = [New_ConnectionState 0, Call_createResponse,
                    Queue_response 200 ''Hello World at '' [(''Content-Type'', ''text/html'')]]\<rparr>)"
  by (simp add: sample_eval DynamicController_defaults_def createResponse_calls_def)

theorem createResponse_called_once_witness:
  "serve (DynamicController_handleRequest DynamicController_defaults 7 MyController_createResponse)
      [request (peer AF_INET [10, 0, 0, 2] MHD_NO) ''/'' ''GET'' None,
       request (peer AF_INET [10, 0, 0, 2] MHD_YES) ''/'' ''GET'' None,
       request (peer AF_INET [10, 0, 0, 2] MHD_YES) ''/'' ''GET'' None] None world_init =
     Inr ([1, 1, 1], Some 0,
          \<lparr>heap = [Some ((ConnectionState_init 7)
                     \<lparr>response_sent := True, response_headers := [(''Content-Type'', ''text/html'')],
                      response_data := ''Hello World at ''\<rparr>)],
           user = 1,
           trace = [New_ConnectionState 0, Call_createResponse,
                    Queue_response 200 ''Hello World at '' [(''Content-Type'', ''text/html'')],
                    Queue_response 200 ''Hello World at '' [(''Content-Type'', ''text/html'')]]\<rparr>)
   \<and> createResponse_calls [New_ConnectionState 0, Call_createResponse,
                    Queue_response 200 ''Hello World at '' [(''Content-Type'', ''text/html'')],
                    Queue_response 200 ''Hello World at '' [(''Content-Type'', ''text/html'')]] = 1
   \<and> serve (DynamicController_handleRequest DynamicController_defaults 7 silent_createResponse)
      [request (peer AF_INET [10, 0, 0, 2] MHD_YES) ''/form'' ''POST'' None,
       request (peer AF_INET [10, 0, 0, 2] MHD_YES) ''/form'' ''POST'' (Some ''a=1''),
       request (peer AF_INET [10, 0, 0, 2] MHD_YES) ''/form'' ''POST'' None] None world_init =
     Inr ([1, 1, 1], Some 0,
          \<lparr>heap = [Some ((ConnectionState_init 7)
                     \<lparr>response_sent := True, request_waiting_loop_counter := 1\<rparr>)],
           user = 1,
           trace = [New_ConnectionState 0, Nanosleep \<lparr>tv_sec = 0, tv_nsec = 10000000\<rparr>,
                    Call_createResponse, Queue_response 200 [] []]\<rparr>)
   \<and> createResponse_calls [New_ConnectionState 0, Nanosleep \<lparr>tv_sec = 0, tv_nsec = 10000000\<rparr>,
                    Call_createResponse, Queue_response 200 [] []] = 1
   \<and> DynamicController_handleRequest DynamicController_defaults 7 MyController_createResponse
        (request (peer AF_INET [10, 0, 0, 2] MHD_NO) ''/'' ''GET'' None) None world_init =
     Inr (1, Some 0,
          \<lparr>heap = [Some ((ConnectionState_init 7)
                     \<lparr>response_headers := [(''Content-Type'', ''text/html'')],
                      response_data := ''Hello World at ''\<rparr>)],
           user = 1,
           trace = [New_ConnectionState 0, Call_createResponse,
                    Queue_response 200 ''Hello World at '' [(''Content-Type'', ''text/html'')]]\<rparr>)"
proof -
  let ?get = "request (peer AF_INET [10, 0, 0, 2] MHD_NO) ''/'' ''GET'' None"
  let ?ok = "request (peer AF_INET [10, 0, 0, 2] MHD_YES) ''/'' ''GET'' None"
  let ?wait = "request (peer AF_INET [10, 0, 0, 2] MHD_YES) ''/form'' ''POST'' None"
  let ?post = "request (peer AF_INET [10, 0, 0, 2] MHD_YES) ''/form'' ''POST'' (Some ''a=1'')"
  let ?rp = "ResponseParams_init\<lparr>headers := [(''Content-Type'', ''text/html'')]\<rparr>"
  have g: "\<not> (meth ?get = ''POST'' \<and> upload_data ?get = None)"
    and p: "\<not> (meth ?post = ''POST'' \<and> upload_data ?post = None)"
    by (simp_all add: request_def)
  have cg: "MyController_createResponse ?get (user world_init) = ((?rp, ''Hello World at ''), 1)"
    by (simp add: MyController_createResponse_def world_init_def)
  have cp: "silent_createResponse ?post (user world_init) = ((ResponseParams_init, []), 1)"
    by (simp add: silent_createResponse_def world_init_def)
  have hg: "(\<forall>x \<in> set []. meth x = ''POST'' \<and> upload_data x = None)
      \<and> (''Hello World at '' \<noteq> [] \<or> queue_response_ret (connection ?get) = MHD_YES
           \<or> uint (response_code ?rp) = MHD_NO)"
    by simp
  have hp: "(\<forall>x \<in> set [?wait]. meth x = ''POST'' \<and> upload_data x = None)
      \<and> ([] \<noteq> ([] :: string) \<or> queue_response_ret (connection ?post) = MHD_YES
           \<or> uint (response_code ResponseParams_init) = MHD_NO)"
    by (simp add: request_def peer_def)
  have code: "uint (response_code ?rp) \<noteq> MHD_NO"
    by (simp add: ResponseParams_init_def MHD_YES_def MHD_NO_def)
  note T1 = createResponse_called_once [where cr = MyController_createResponse and req = ?get
      and w = world_init and rp = ?rp and ?body0.0 = "''Hello World at ''" and u' = 1
      and waits = "[]" and rest = "[?ok, ?ok]" and cfg = DynamicController_defaults and this = 7,
      OF g cg]
  note T2 = createResponse_called_once [where cr = silent_createResponse and req = ?post
      and w = world_init and rp = ResponseParams_init and ?body0.0 = "[]" and u' = 1
      and waits = "[?wait]" and rest = "[?wait]" and cfg = DynamicController_defaults and this = 7,
      OF p cp]
  have step: "DynamicController_handleRequest DynamicController_defaults 7
       MyController_createResponse ?get None world_init =
       Inr (MHD_YES, Some (length (heap world_init)),
         world_init\<lparr>heap := heap world_init @ [Some
                      (if queue_response_ret (connection ?get) = MHD_YES
                       then (ConnectionState_init 7)
                              \<lparr>response_data := ''Hello World at '', response_headers := headers ?rp,
                               response_sent := True\<rparr>
                       else (ConnectionState_init 7)
                              \<lparr>response_data := ''Hello World at '', response_headers := headers ?rp\<rparr>)],
           user := 1,
           trace := trace world_init @ [New_ConnectionState (length (heap world_init)),
                      Call_createResponse,
                      Queue_response MHD_HTTP_OK ''Hello World at '' (headers ?rp)]\<rparr>)"
    by (rule T1 [THEN conjunct2, THEN conjunct1, THEN mp, OF code])
  have once1: "\<exists>rets ptr w' evs k.
       serve (DynamicController_handleRequest DynamicController_defaults 7 MyController_createResponse)
         ([] @ ?get # [?ok, ?ok]) None world_init = Inr (rets, ptr, w')
       \<and> trace w' = trace world_init @ evs \<and> createResponse_calls evs \<le> 1
       \<and> queued evs = replicate k (MHD_HTTP_OK, ''Hello World at '', headers ?rp)
       \<and> (0 < k \<longrightarrow> (\<exists>s'. deref w' (length (heap world_init)) = Some s'
                \<and> response_data s' = ''Hello World at '' \<and> response_headers s' = headers ?rp))
       \<and> (length ([] :: invocation list) \<le> unat (waiting_loops DynamicController_defaults)
            \<and> uint (response_code ?rp) \<noteq> MHD_NO \<longrightarrow>
            createResponse_calls evs = 1 \<and> 0 < k \<and> user w' = 1)"
    by (rule T1 [THEN conjunct1, THEN mp, OF hg])
  have once2: "\<exists>rets ptr w' evs k.
       serve (DynamicController_handleRequest DynamicController_defaults 7 silent_createResponse)
         ([?wait] @ ?post # [?wait]) None world_init = Inr (rets, ptr, w')
       \<and> trace w' = trace world_init @ evs \<and> createResponse_calls evs \<le> 1
       \<and> queued evs = replicate k (MHD_HTTP_OK, [], headers ResponseParams_init)
       \<and> (0 < k \<longrightarrow> (\<exists>s'. deref w' (length (heap world_init)) = Some s'
                \<and> response_data s' = [] \<and> response_headers s' = headers ResponseParams_init))
       \<and> (length [?wait] \<le> unat (waiting_loops DynamicController_defaults)
            \<and> uint (response_code ResponseParams_init) \<noteq> MHD_NO \<longrightarrow>
            createResponse_calls evs = 1 \<and> 0 < k \<and> user w' = 1)"
    by (rule T2 [THEN conjunct1, THEN mp, OF hp])
  have run1: "serve (DynamicController_handleRequest DynamicController_defaults 7 MyController_createResponse)
      [?get, ?ok, ?ok] None world_init =
     Inr ([1, 1, 1], Some 0,
          \<lparr>heap = [Some ((ConnectionState_init 7)
                     \<lparr>response_sent := True, response_headers := [(''Content-Type'', ''text/html'')],
                      response_data := ''Hello World at ''\<rparr>)],
           user = 1,
           trace = [New_ConnectionState 0, Call_createResponse,
                    Queue_response 200 ''Hello World at '' [(''Content-Type'', ''text/html'')],
                    Queue_response 200 ''Hello World at '' [(''Content-Type'', ''text/html'')]]\<rparr>)"
    by (simp add: sample_eval DynamicController_defaults_def)
  have run2: "serve (DynamicController_handleRequest DynamicController_defaults 7 silent_createResponse)
      [?wait, ?post, ?wait] None world_init =
     Inr ([1, 1, 1], Some 0,
          \<lparr>heap = [Some ((ConnectionState_init 7)
                     \<lparr>response_sent := True, request_waiting_loop_counter := 1\<rparr>)],
           user = 1,
           trace = [New_ConnectionState 0, Nanosleep \<lparr>tv_sec = 0, tv_nsec = 10000000\<rparr>,
                    Call_createResponse, Queue_response 200 [] []]\<rparr>)"
    by (simp add: sample_eval DynamicController_defaults_def)
  have final: ?thesis
    using step run1 run2
    by (simp add: createResponse_calls_def world_init_def request_def peer_def
        ConnectionState_init_def ResponseParams_init_def MHD_YES_def MHD_NO_def MHD_HTTP_OK_def)
  show ?thesis
    by (insert once1 once2, rule final)
qed

end
